theory Spec2Isabelle
  imports Complex_Main
begin

section \<open>Strings and Python values\<close>

text \<open>
  The program under study is \<^verbatim>\<open>python_to_latex.py\<close>: it renders a sequence of Python
  assignments as a LaTeX \<^verbatim>\<open>aligned\<close> block.  Python strings are modelled as
  \<^typ>\<open>string\<close>.  A HOL string literal cannot hold a backslash, so a LaTeX command
  is written \<open>tex ''alpha''\<close> for the text \<^verbatim>\<open>\alpha\<close>, and a line feed is \<open>nl\<close>.
\<close>

abbreviation tex :: "string \<Rightarrow> string" where
  "tex s \<equiv> CHR 0x5C # s"

abbreviation nl :: string where
  "nl \<equiv> [CHR 0x0A]"

text \<open>\<^verbatim>\<open>sep.join(xs)\<close>.\<close>

fun join :: "string \<Rightarrow> string list \<Rightarrow> string" where
  "join sep [] = []"
| "join sep [x] = x"
| "join sep (x # y # ys) = x @ sep @ join sep (y # ys)"

text \<open>
  A Python \<^verbatim>\<open>float\<close> is a finite binary fraction, a signed zero, an infinity or a
  NaN.  The finite ones are modelled by their exact rational value (\<open>Fin 0\<close> is
  \<^verbatim>\<open>0.0\<close>), so every statement proved for all \<open>Fin q\<close> covers every finite double.
\<close>

datatype pyfloat = Fin rat | NegZero | PInf | NInf | NaN

text \<open>
  The values the evaluator can bind to a name.  An object of any other type (a
  function, a list, \<^verbatim>\<open>bytes\<close>, \<^verbatim>\<open>Ellipsis\<close>) is \<open>VOther s\<close>, with \<open>s\<close> the text
  \<^verbatim>\<open>str\<close> gives for it.
\<close>

datatype pyvalue =
    VInt int
  | VFloat pyfloat
  | VComplex pyfloat pyfloat
  | VBool bool
  | VStr string
  | VNone
  | VOther string

datatype py_exception =
    IndexError
  | KeyError
  | NameError
  | TypeError
  | ValueError
  | OverflowError
  | ZeroDivisionError
  | OtherException string
  | SystemExit
  | KeyboardInterrupt
  | GeneratorExit
  | OtherBaseException string

text \<open>
  \<^verbatim>\<open>except Exception\<close> catches every exception class but the ones derived from
  \<^verbatim>\<open>BaseException\<close> alone; a bare \<^verbatim>\<open>except:\<close> catches all of them.
  \<open>OtherException s\<close> is any further class derived from \<^verbatim>\<open>Exception\<close>,
  \<open>OtherBaseException s\<close> any further class derived from \<^verbatim>\<open>BaseException\<close> alone
  (\<^verbatim>\<open>asyncio.CancelledError\<close>, \<^verbatim>\<open>BaseException\<close> itself).
\<close>

fun is_Exception :: "py_exception \<Rightarrow> bool" where
  "is_Exception SystemExit = False"
| "is_Exception KeyboardInterrupt = False"
| "is_Exception GeneratorExit = False"
| "is_Exception (OtherBaseException s) = False"
| "is_Exception _ = True"

subsection \<open>Comparisons of a float with a finite constant\<close>

text \<open>\<^verbatim>\<open>x == c\<close>, \<^verbatim>\<open>x != c\<close> and \<^verbatim>\<open>x >= c\<close> for a finite constant \<open>c\<close>: a NaN
  compares unequal to everything, and \<^verbatim>\<open>-0.0 == 0\<close>.\<close>

fun float_eq :: "pyfloat \<Rightarrow> rat \<Rightarrow> bool" where
  "float_eq (Fin q) c = (q = c)"
| "float_eq NegZero c = (c = 0)"
| "float_eq _ c = False"

definition float_ne :: "pyfloat \<Rightarrow> rat \<Rightarrow> bool" where
  "float_ne x c = (\<not> float_eq x c)"

fun float_ge :: "pyfloat \<Rightarrow> rat \<Rightarrow> bool" where
  "float_ge (Fin q) c = (c \<le> q)"
| "float_ge NegZero c = (c \<le> 0)"
| "float_ge PInf c = True"
| "float_ge NInf c = False"
| "float_ge NaN c = False"

subsection \<open>Integers as decimal text\<close>

definition digit_char :: "nat \<Rightarrow> char" where
  "digit_char d = ''0123456789'' ! d"

fun nat_digits :: "nat \<Rightarrow> string" where
  "nat_digits n = (if n < 10 then [digit_char n] else nat_digits (n div 10) @ [digit_char (n mod 10)])"

declare nat_digits.simps [simp del]

text \<open>\<^verbatim>\<open>str(i)\<close> for an \<^verbatim>\<open>int\<close>.\<close>

definition str_int :: "int \<Rightarrow> string" where
  "str_int i = (if i < 0 then CHR ''-'' # nat_digits (nat (- i)) else nat_digits (nat i))"

subsection \<open>The format specifier \<^verbatim>\<open>g\<close>\<close>

text \<open>
  \<^verbatim>\<open>format(x, '.pg')\<close> as the language reference defines it: the value is rounded
  (correctly, ties to even) to \<open>p\<close> significant digits, giving a decimal exponent
  \<open>e\<close>; when \<open>-4 \<le> e < p\<close> the digits are written in fixed notation, otherwise in
  scientific notation with an exponent of at least two digits; trailing zeros of the
  fraction go, and the point with them when nothing is left after it.
\<close>

text \<open>\<^verbatim>\<open>round(x)\<close> of a finite float: the nearest integer, ties to the even one.\<close>

definition round_half_even :: "rat \<Rightarrow> int" where
  "round_half_even x =
     (let f = \<lfloor>x\<rfloor>; d = x - of_int f
      in if d < 1 / 2 then f else if 1 / 2 < d then f + 1 else if even f then f else f + 1)"

text \<open>The decimal exponent of \<open>a > 0\<close>: the \<open>e\<close> with \<open>10 ^ e \<le> a < 10 ^ (e + 1)\<close>.\<close>

definition decimal_exponent :: "rat \<Rightarrow> int" where
  "decimal_exponent a =
     (if 1 \<le> a then int (length (nat_digits (nat \<lfloor>a\<rfloor>))) - 1
      else - int (length (nat_digits (nat (\<lceil>1 / a\<rceil> - 1)))))"

definition scale10 :: "rat \<Rightarrow> int \<Rightarrow> rat" where
  "scale10 a k = (if 0 \<le> k then a * 10 ^ nat k else a / 10 ^ nat (- k))"

text \<open>The \<open>p\<close> significant digits of \<open>a > 0\<close> and its exponent after rounding.\<close>

definition sig_digits :: "nat \<Rightarrow> rat \<Rightarrow> nat \<times> int" where
  "sig_digits p a =
     (let e = decimal_exponent a;
          m = nat (round_half_even (scale10 a (int p - 1 - e)))
      in if m = 10 ^ p then (10 ^ (p - 1), e + 1) else (m, e))"

definition strip_zeros :: "string \<Rightarrow> string" where
  "strip_zeros s = rev (dropWhile (\<lambda>c. c = CHR ''0'') (rev s))"

definition with_fraction :: "string \<Rightarrow> string \<Rightarrow> string" where
  "with_fraction whole digits =
     (let f = strip_zeros digits in if f = [] then whole else whole @ CHR ''.'' # f)"

definition exponent_text :: "int \<Rightarrow> string" where
  "exponent_text e =
     CHR ''e'' # (if e < 0 then CHR ''-'' else CHR ''+'') #
       (if \<bar>e\<bar> < 10 then CHR ''0'' # nat_digits (nat \<bar>e\<bar>) else nat_digits (nat \<bar>e\<bar>))"

definition format_g_pos :: "nat \<Rightarrow> rat \<Rightarrow> string" where
  "format_g_pos p a =
     (let (m, e) = sig_digits p a; ds = nat_digits m
      in if - 4 \<le> e \<and> e < int p then
           (if 0 \<le> e then with_fraction (take (nat e + 1) ds) (drop (nat e + 1) ds)
            else with_fraction ''0'' (replicate (nat (- e - 1)) (CHR ''0'') @ ds))
         else with_fraction (take 1 ds) (drop 1 ds) @ exponent_text e)"

fun format_g :: "nat \<Rightarrow> pyfloat \<Rightarrow> string" where
  "format_g p (Fin q) =
     (if q = 0 then ''0''
      else if q < 0 then CHR ''-'' # format_g_pos p (- q)
      else format_g_pos p q)"
| "format_g p NegZero = ''-0''"
| "format_g p PInf = ''inf''"
| "format_g p NInf = ''-inf''"
| "format_g p NaN = ''nan''"

subsection \<open>\<^verbatim>\<open>str\<close> of a value\<close>

text \<open>
  The shortest decimal text that reads back as the same double (what the interpreter's
  \<^verbatim>\<open>repr\<close> computes, before it appends \<^verbatim>\<open>.0\<close>) depends on the binary layout of
  the double and is a parameter \<open>r\<close> of the model: the digits, in fixed or scientific
  notation, \<^verbatim>\<open>inf\<close>, \<^verbatim>\<open>-inf\<close> or \<^verbatim>\<open>nan\<close>.  \<^verbatim>\<open>str\<close> of a float appends \<^verbatim>\<open>.0\<close>
  to a text that is only a sign and digits; \<^verbatim>\<open>str\<close> of a complex number with a real
  part other than \<^verbatim>\<open>+0.0\<close> is \<^verbatim>\<open>(re+imj)\<close>, the imaginary part always signed.
\<close>

definition float_str :: "(pyfloat \<Rightarrow> string) \<Rightarrow> pyfloat \<Rightarrow> string" where
  "float_str r x =
     (let s = r x in if list_all (\<lambda>c. List.member ''-0123456789'' c) s then s @ ''.0'' else s)"

definition signed_text :: "string \<Rightarrow> string" where
  "signed_text s = (if take 1 s = ''-'' then s else CHR ''+'' # s)"

fun py_str :: "(pyfloat \<Rightarrow> string) \<Rightarrow> pyvalue \<Rightarrow> string" where
  "py_str r (VInt i) = str_int i"
| "py_str r (VFloat x) = float_str r x"
| "py_str r (VComplex re im) =
     (if re = Fin 0 then r im @ ''j'' else ''('' @ r re @ signed_text (r im) @ ''j)'')"
| "py_str r (VBool b) = (if b then ''True'' else ''False'')"
| "py_str r (VStr s) = s"
| "py_str r VNone = ''None''"
| "py_str r (VOther s) = s"

section \<open>The syntax tree\<close>

text \<open>
  The nodes of Python's \<^verbatim>\<open>ast\<close> module that the program inspects.  \<open>PowOp\<close> and
  \<open>NotOp\<close> are \<^verbatim>\<open>ast.Pow\<close> and \<^verbatim>\<open>ast.Not\<close>, \<open>ListNode\<close> and \<open>TupleNode\<close> are
  \<^verbatim>\<open>ast.List\<close> and \<^verbatim>\<open>ast.Tuple\<close>; an expression or statement of any other class
  (a lambda, a dictionary, an import, a function definition) is \<open>OtherExpr\<close> or
  \<open>OtherStmt\<close>.  A literal is a \<open>Constant\<close> holding its value.
\<close>

datatype operator =
  Add | Sub | Mult | MatMult | Div | Mod | PowOp | LShift | RShift | BitOr | BitXor | BitAnd | FloorDiv

datatype unaryop = Invert | NotOp | UAdd | USub

datatype cmpop = Eq | NotEq | Lt | LtE | Gt | GtE | Is | IsNot | In | NotIn

datatype expr =
    Constant pyvalue
  | Name string
  | BinOp expr operator expr
  | UnaryOp unaryop expr
  | Call expr "expr list" "(string \<times> expr) list"
  | Compare expr "cmpop list" "expr list"
  | IfExp expr expr expr
  | Subscript expr expr
  | Attribute expr string
  | ListNode "expr list"
  | TupleNode "expr list"
  | OtherExpr string

datatype stmt =
    Assign "expr list" expr
  | AugAssign expr operator expr
  | OtherStmt string

type_synonym namespace = "string \<rightharpoonup> pyvalue"

subsection \<open>Exceptions as values\<close>

definition bindE :: "'e + 'a \<Rightarrow> ('a \<Rightarrow> 'e + 'b) \<Rightarrow> 'e + 'b" where
  "bindE m f = (case m of Inl e \<Rightarrow> Inl e | Inr v \<Rightarrow> f v)"

text \<open>A list comprehension whose elements may raise: the first exception wins.\<close>

fun sequenceE :: "('e + 'a) list \<Rightarrow> 'e + 'a list" where
  "sequenceE [] = Inr []"
| "sequenceE (m # ms) = bindE m (\<lambda>v. bindE (sequenceE ms) (\<lambda>vs. Inr (v # vs)))"

text \<open>\<^verbatim>\<open>args[i]\<close> for \<open>i \<ge> 0\<close>: an \<^verbatim>\<open>IndexError\<close> out of range.\<close>

definition arg :: "string list \<Rightarrow> nat \<Rightarrow> py_exception + string" where
  "arg args i = (if i < length args then Inr (args ! i) else Inl IndexError)"

section \<open>The identifier renderer\<close>

definition GREEK_LETTERS :: "(string \<times> string) list" where
  "GREEK_LETTERS =
    [(''alpha'', tex ''alpha''), (''beta'', tex ''beta''), (''gamma'', tex ''gamma''),
     (''Gamma'', tex ''Gamma''), (''delta'', tex ''delta''), (''Delta'', tex ''Delta''),
     (''epsilon'', tex ''epsilon''), (''varepsilon'', tex ''varepsilon''),
     (''zeta'', tex ''zeta''), (''eta'', tex ''eta''),
     (''theta'', tex ''theta''), (''Theta'', tex ''Theta''), (''vartheta'', tex ''vartheta''),
     (''iota'', tex ''iota''), (''kappa'', tex ''kappa''),
     (''lambda_'', tex ''lambda''),
     (''Lambda'', tex ''Lambda''),
     (''mu'', tex ''mu''), (''nu'', tex ''nu''), (''xi'', tex ''xi''), (''Xi'', tex ''Xi''),
     (''Pi'', tex ''Pi''), (''varpi'', tex ''varpi''),
     (''rho'', tex ''rho''), (''varrho'', tex ''varrho''),
     (''sigma'', tex ''sigma''), (''Sigma'', tex ''Sigma''), (''varsigma'', tex ''varsigma''),
     (''tau'', tex ''tau''),
     (''upsilon'', tex ''upsilon''), (''Upsilon'', tex ''Upsilon''),
     (''phi'', tex ''phi''), (''Phi'', tex ''Phi''), (''varphi'', tex ''varphi''),
     (''chi'', tex ''chi''),
     (''psi'', tex ''psi''), (''Psi'', tex ''Psi''),
     (''omega'', tex ''omega''), (''Omega'', tex ''Omega''),
     (''ohm'', tex ''Omega''),
     (''inf'', tex ''infty'')]"

text \<open>\<^verbatim>\<open>GREEK_LETTERS.get(key, key)\<close>.\<close>

definition greek :: "string \<Rightarrow> string" where
  "greek key = (case map_of GREEK_LETTERS key of None \<Rightarrow> key | Some g \<Rightarrow> g)"

text \<open>\<^verbatim>\<open>name.split('_', 1)\<close> for a name that holds an underscore.\<close>

definition split_first :: "string \<Rightarrow> string \<times> string" where
  "split_first name =
     (takeWhile (\<lambda>c. c \<noteq> CHR ''_'') name, drop 1 (dropWhile (\<lambda>c. c \<noteq> CHR ''_'') name))"

definition name_to_latex :: "string \<Rightarrow> string" where
  "name_to_latex name =
     (if CHR ''_'' \<in> set name then
        (let parts = split_first name;
             base = greek (fst parts);
             subscript = greek (snd parts)
         in base @ ''_{'' @ subscript @ ''}'')
      else greek name)"

section \<open>The value formatter\<close>

text \<open>
  \<^verbatim>\<open>round(x)\<close> of a float raises \<^verbatim>\<open>OverflowError\<close> on an infinity and
  \<^verbatim>\<open>ValueError\<close> on a NaN.
\<close>

fun py_round :: "pyfloat \<Rightarrow> py_exception + int" where
  "py_round (Fin q) = Inr (round_half_even q)"
| "py_round NegZero = Inr 0"
| "py_round PInf = Inl OverflowError"
| "py_round NInf = Inl OverflowError"
| "py_round NaN = Inl ValueError"

text \<open>
  The float literal \<^verbatim>\<open>1e-10\<close> is the double nearest to \<open>1 / 10 ^ 10\<close>, a little above it.
\<close>

definition float_1e_10 :: rat where
  "float_1e_10 = 7737125245533627 / 2 ^ 86"

text \<open>
  \<^verbatim>\<open>abs(val - round(val))\<close> once \<^verbatim>\<open>round(val)\<close> has returned \<open>n\<close>: the value is
  finite then, and the subtraction of the nearest integer is exact in binary floating
  point.
\<close>

fun distance_to :: "pyfloat \<Rightarrow> int \<Rightarrow> rat" where
  "distance_to (Fin q) n = \<bar>q - of_int n\<bar>"
| "distance_to _ n = 0"

fun format_value :: "(pyfloat \<Rightarrow> string) \<Rightarrow> pyvalue \<Rightarrow> py_exception + string" where
  "format_value r (VComplex re im) =
     (let real = (if float_ne re 0 then format_g 6 re else []);
          imag_val = im;
          imag = (if float_eq imag_val 1 then ''j''
                  else if float_eq imag_val (- 1) then ''-j''
                  else format_g 6 imag_val @ ''j'')
      in if real \<noteq> [] \<and> float_ge imag_val 0 then Inr (real @ '' + '' @ imag)
         else if real \<noteq> [] then Inr (real @ '' '' @ imag)
         else Inr imag)"
| "format_value r (VFloat val) =
     bindE (py_round val) (\<lambda>n.
       if distance_to val n < float_1e_10 then Inr (str_int n)
       else Inr (format_g 6 val))"
| "format_value r (VBool val) = Inr (if val then tex ''text{True}'' else tex ''text{False}'')"
| "format_value r val = Inr (py_str r val)"

section \<open>The symbolic renderer\<close>

definition left_right :: "string \<Rightarrow> string" where
  "left_right s = tex ''left('' @ s @ tex ''right)''"

definition is_additive_BinOp :: "expr \<Rightarrow> bool" where
  "is_additive_BinOp node = (case node of BinOp l op r \<Rightarrow> op = Add \<or> op = Sub | _ \<Rightarrow> False)"

fun binop_latex :: "operator \<Rightarrow> string \<Rightarrow> string \<Rightarrow> string" where
  "binop_latex Add left right = left @ '' + '' @ right"
| "binop_latex Sub left right = left @ '' - '' @ right"
| "binop_latex Mult left right = left @ '' '' @ tex ''cdot '' @ right"
| "binop_latex Div left right = tex ''frac{'' @ left @ ''}{'' @ right @ ''}''"
| "binop_latex FloorDiv left right =
     tex ''left'' @ tex ''lfloor'' @ tex ''frac{'' @ left @ ''}{'' @ right @ ''}'' @ tex ''right'' @ tex ''rfloor''"
| "binop_latex PowOp left right = left @ ''^{'' @ right @ ''}''"
| "binop_latex Mod left right = left @ '' '' @ tex ''mod '' @ right"
| "binop_latex _ left right = left @ '' '' @ tex ''text{op} '' @ right"

fun unaryop_latex :: "unaryop \<Rightarrow> string \<Rightarrow> string" where
  "unaryop_latex USub operand = CHR ''-'' # operand"
| "unaryop_latex UAdd operand = CHR ''+'' # operand"
| "unaryop_latex NotOp operand = tex ''neg '' @ operand"
| "unaryop_latex _ operand = operand"

text \<open>The name a call is rendered under.\<close>

fun callee_name :: "expr \<Rightarrow> string" where
  "callee_name (Name ident) = ident"
| "callee_name (Attribute v attr) = attr"
| "callee_name _ = ''func''"

definition call_latex :: "string \<Rightarrow> string list \<Rightarrow> py_exception + string" where
  "call_latex func_name args =
     (if func_name = ''sqrt'' then
        bindE (arg args 0) (\<lambda>a0. Inr (tex ''sqrt{'' @ a0 @ ''}''))
      else if func_name = ''abs'' then
        bindE (arg args 0) (\<lambda>a0. Inr (tex ''left|'' @ a0 @ tex ''right|''))
      else if func_name \<in> set [''sin'', ''cos'', ''tan'', ''cot'', ''sec'', ''csc''] then
        bindE (arg args 0) (\<lambda>a0. Inr (tex func_name @ left_right a0))
      else if func_name \<in> set [''sinh'', ''cosh'', ''tanh''] then
        bindE (arg args 0) (\<lambda>a0. Inr (tex func_name @ left_right a0))
      else if func_name \<in> set [''asin'', ''arcsin''] then
        bindE (arg args 0) (\<lambda>a0. Inr (tex ''arcsin'' @ left_right a0))
      else if func_name \<in> set [''acos'', ''arccos''] then
        bindE (arg args 0) (\<lambda>a0. Inr (tex ''arccos'' @ left_right a0))
      else if func_name \<in> set [''atan'', ''arctan''] then
        bindE (arg args 0) (\<lambda>a0. Inr (tex ''arctan'' @ left_right a0))
      else if func_name = ''atan2'' then
        bindE (arg args 0) (\<lambda>a0. bindE (arg args 1) (\<lambda>a1.
          Inr (tex ''arctan'' @ left_right (tex ''frac{'' @ a0 @ ''}{'' @ a1 @ ''}''))))
      else if func_name = ''log'' then
        (if length args = 1 then
           bindE (arg args 0) (\<lambda>a0. Inr (tex ''ln'' @ left_right a0))
         else
           bindE (arg args 1) (\<lambda>a1. bindE (arg args 0) (\<lambda>a0.
             Inr (tex ''log_{'' @ a1 @ ''}'' @ left_right a0))))
      else if func_name \<in> set [''ln'', ''log''] then
        bindE (arg args 0) (\<lambda>a0. Inr (tex ''ln'' @ left_right a0))
      else if func_name = ''log10'' then
        bindE (arg args 0) (\<lambda>a0. Inr (tex ''log_{10}'' @ left_right a0))
      else if func_name = ''log2'' then
        bindE (arg args 0) (\<lambda>a0. Inr (tex ''log_{2}'' @ left_right a0))
      else if func_name = ''exp'' then
        bindE (arg args 0) (\<lambda>a0. Inr (''e^{'' @ a0 @ ''}''))
      else if func_name = ''pow'' then
        bindE (arg args 0) (\<lambda>a0. bindE (arg args 1) (\<lambda>a1. Inr (a0 @ ''^{'' @ a1 @ ''}'')))
      else if func_name = ''max'' then
        Inr (tex ''max'' @ left_right (join '', '' args))
      else if func_name = ''min'' then
        Inr (tex ''min'' @ left_right (join '', '' args))
      else if func_name = ''sum'' then
        bindE (arg args 0) (\<lambda>a0. Inr (tex ''sum '' @ a0))
      else if func_name = ''round'' then
        arg args 0
      else
        Inr (tex ''text{'' @ func_name @ ''}'' @ left_right (join '', '' args)))"

fun cmpop_latex :: "cmpop \<Rightarrow> string \<Rightarrow> string" where
  "cmpop_latex Eq right = '' = '' @ right"
| "cmpop_latex NotEq right = '' '' @ tex ''neq '' @ right"
| "cmpop_latex Lt right = '' < '' @ right"
| "cmpop_latex Gt right = '' > '' @ right"
| "cmpop_latex LtE right = '' '' @ tex ''leq '' @ right"
| "cmpop_latex GtE right = '' '' @ tex ''geq '' @ right"
| "cmpop_latex _ right = []"

text \<open>The loop over \<^verbatim>\<open>zip(node.ops, node.comparators)\<close>, each comparator rendered in turn.\<close>

fun compare_loop :: "string \<Rightarrow> (cmpop \<times> (py_exception + string)) list \<Rightarrow> py_exception + string" where
  "compare_loop result [] = Inr result"
| "compare_loop result ((op, rendered) # rest) =
     bindE rendered (\<lambda>right. compare_loop (result @ cmpop_latex op right) rest)"

definition ifexp_latex :: "string \<Rightarrow> string \<Rightarrow> string \<Rightarrow> string" where
  "ifexp_latex test body orelse =
     tex ''begin{cases} '' @ body @ '' & '' @ tex ''text{if } '' @ test @ '' '' @ tex (tex '' '') @ orelse
       @ '' & '' @ tex ''text{otherwise} '' @ tex ''end{cases}''"

text \<open>
  \<^verbatim>\<open>f"{val:g}"\<close> for a float literal, with the two infinities special-cased; any other
  literal through \<^verbatim>\<open>str\<close>.
\<close>

fun constant_latex :: "(pyfloat \<Rightarrow> string) \<Rightarrow> pyvalue \<Rightarrow> string" where
  "constant_latex r (VFloat val) =
     (if val = PInf then tex ''infty''
      else if val = NInf then CHR ''-'' # tex ''infty''
      else format_g 6 val)"
| "constant_latex r val = py_str r val"

fun expr_to_latex :: "(pyfloat \<Rightarrow> string) \<Rightarrow> expr \<Rightarrow> namespace \<Rightarrow> py_exception + string" where
  "expr_to_latex r (Constant val) namespace = Inr (constant_latex r val)"
| "expr_to_latex r (Name ident) namespace = Inr (name_to_latex ident)"
| "expr_to_latex r (BinOp l op rgt) namespace =
     bindE (expr_to_latex r l namespace) (\<lambda>left.
     bindE (expr_to_latex r rgt namespace) (\<lambda>right.
       let left_paren = (is_additive_BinOp l \<and> (op = Mult \<or> op = Div \<or> op = PowOp));
           right_paren = (is_additive_BinOp rgt \<and> (op = Mult \<or> op = Div \<or> op = PowOp));
           left = (if left_paren then left_right left else left);
           right = (if right_paren \<and> op \<noteq> Div then left_right right else right)
       in Inr (binop_latex op left right)))"
| "expr_to_latex r (UnaryOp op operand) namespace =
     bindE (expr_to_latex r operand namespace) (\<lambda>operand. Inr (unaryop_latex op operand))"
| "expr_to_latex r (Call func args keywords) namespace =
     bindE (sequenceE (map (\<lambda>a. expr_to_latex r a namespace) args)) (call_latex (callee_name func))"
| "expr_to_latex r (Compare l ops comparators) namespace =
     bindE (expr_to_latex r l namespace) (\<lambda>left.
       compare_loop left (zip ops (map (\<lambda>c. expr_to_latex r c namespace) comparators)))"
| "expr_to_latex r (IfExp test body orelse) namespace =
     bindE (expr_to_latex r test namespace) (\<lambda>test.
     bindE (expr_to_latex r body namespace) (\<lambda>body.
     bindE (expr_to_latex r orelse namespace) (\<lambda>orelse.
       Inr (ifexp_latex test body orelse))))"
| "expr_to_latex r (Subscript v slice) namespace =
     bindE (expr_to_latex r v namespace) (\<lambda>value.
     bindE (case slice of Constant c \<Rightarrow> Inr (py_str r c) | _ \<Rightarrow> expr_to_latex r slice namespace) (\<lambda>idx.
       Inr (value @ ''_{'' @ idx @ ''}'')))"
| "expr_to_latex r (ListNode elts) namespace =
     bindE (sequenceE (map (\<lambda>e. expr_to_latex r e namespace) elts)) (\<lambda>elements.
       Inr (tex ''left['' @ join '', '' elements @ tex ''right]''))"
| "expr_to_latex r (TupleNode elts) namespace =
     bindE (sequenceE (map (\<lambda>e. expr_to_latex r e namespace) elts)) (\<lambda>elements.
       Inr (tex ''left['' @ join '', '' elements @ tex ''right]''))"
| "expr_to_latex r _ namespace = Inr (tex ''text{?}'')"

section \<open>The substitution renderer\<close>

text \<open>\<^verbatim>\<open>namespace.get(key)\<close>: the bound value, or \<^verbatim>\<open>None\<close> when the key is absent.\<close>

definition dict_get :: "namespace \<Rightarrow> string \<Rightarrow> pyvalue" where
  "dict_get namespace key = (case namespace key of None \<Rightarrow> VNone | Some v \<Rightarrow> v)"

text \<open>A value as a leaf of the substituted form: \<^verbatim>\<open>f"{val:g}"\<close> for a float, else \<^verbatim>\<open>str(val)\<close>.\<close>

fun leaf_text :: "(pyfloat \<Rightarrow> string) \<Rightarrow> pyvalue \<Rightarrow> string" where
  "leaf_text r (VFloat val) = format_g 6 val"
| "leaf_text r val = py_str r val"

fun binop_subst :: "operator \<Rightarrow> string \<Rightarrow> string \<Rightarrow> string" where
  "binop_subst Add left right = left @ '' + '' @ right"
| "binop_subst Sub left right = left @ '' - '' @ right"
| "binop_subst Mult left right = left @ '' '' @ tex ''cdot '' @ right"
| "binop_subst Div left right = tex ''frac{'' @ left @ ''}{'' @ right @ ''}''"
| "binop_subst PowOp left right = left @ ''^{'' @ right @ ''}''"
| "binop_subst Mod left right = left @ '' '' @ tex ''mod '' @ right"
| "binop_subst _ left right = left @ '' ? '' @ right"

fun unaryop_subst :: "unaryop \<Rightarrow> string \<Rightarrow> string" where
  "unaryop_subst USub operand = CHR ''-'' # operand"
| "unaryop_subst _ operand = operand"

fun callee_name_subst :: "expr \<Rightarrow> string" where
  "callee_name_subst (Name ident) = ident"
| "callee_name_subst _ = ''func''"

definition call_subst :: "string \<Rightarrow> string list \<Rightarrow> py_exception + string" where
  "call_subst func_name args =
     (if func_name = ''sqrt'' then
        bindE (arg args 0) (\<lambda>a0. Inr (tex ''sqrt{'' @ a0 @ ''}''))
      else if func_name = ''abs'' then
        bindE (arg args 0) (\<lambda>a0. Inr (tex ''left|'' @ a0 @ tex ''right|''))
      else if func_name \<in> set [''sin'', ''cos'', ''tan'', ''log'', ''exp''] then
        bindE (arg args 0) (\<lambda>a0. Inr (tex func_name @ left_right a0))
      else
        Inr (tex ''text{'' @ func_name @ ''}'' @ left_right (join '', '' args)))"

fun substitute_values :: "(pyfloat \<Rightarrow> string) \<Rightarrow> expr \<Rightarrow> namespace \<Rightarrow> py_exception + string" where
  "substitute_values r (Constant val) namespace = Inr (leaf_text r val)"
| "substitute_values r (Name ident) namespace =
     (let val = dict_get namespace ident
      in if val = VNone then Inr (name_to_latex ident) else Inr (leaf_text r val))"
| "substitute_values r (BinOp l op rgt) namespace =
     bindE (substitute_values r l namespace) (\<lambda>left.
     bindE (substitute_values r rgt namespace) (\<lambda>right.
       Inr (binop_subst op left right)))"
| "substitute_values r (UnaryOp op operand) namespace =
     bindE (substitute_values r operand namespace) (\<lambda>operand. Inr (unaryop_subst op operand))"
| "substitute_values r (Call func args keywords) namespace =
     bindE (sequenceE (map (\<lambda>a. substitute_values r a namespace) args))
       (call_subst (callee_name_subst func))"
| "substitute_values r node namespace = expr_to_latex r node namespace"

section \<open>The statement sequencer and the line assembler\<close>

text \<open>
  \<^verbatim>\<open>exec(compile(ast.Module(body=[node], ...), '<calc>', 'exec'), namespace)\<close> is the
  interpreter's work and a parameter of the model: given a statement and the
  namespace it either completes, leaving the namespace updated, or raises, leaving
  the namespace as far as the statement got.
\<close>

datatype exec_result = Raised py_exception namespace | Completed namespace

type_synonym evaluator = "stmt \<Rightarrow> namespace \<Rightarrow> exec_result"

text \<open>
  The namespace the conversion starts from.  A built-in function is an object whose
  \<^verbatim>\<open>str\<close> is \<^verbatim>\<open><built-in function sqrt>\<close>; \<^verbatim>\<open>pi\<close> and \<^verbatim>\<open>e\<close> are the doubles of the
  \<^verbatim>\<open>math\<close> module.
\<close>

definition builtin :: "string \<Rightarrow> string \<times> pyvalue" where
  "builtin name = (name, VOther (''<built-in function '' @ name @ ''>''))"

definition initial_namespace :: namespace where
  "initial_namespace = map_of
     [builtin ''sqrt'', builtin ''abs'',
      builtin ''sin'', builtin ''cos'', builtin ''tan'',
      builtin ''asin'', builtin ''acos'', builtin ''atan'',
      builtin ''sinh'', builtin ''cosh'', builtin ''tanh'',
      builtin ''log'', builtin ''log10'', builtin ''exp'',
      (''pi'', VFloat (Fin (884279719003555 / 2 ^ 48))),
      (''e'', VFloat (Fin (6121026514868073 / 2 ^ 51))),
      (''j'', VComplex (Fin 0) (Fin 1)),
      builtin ''max'', builtin ''min'',
      builtin ''round'',
      builtin ''pow'']"

text \<open>The three switches \<^verbatim>\<open>show_symbolic\<close>, \<^verbatim>\<open>show_substitution\<close>, \<^verbatim>\<open>show_result\<close>.\<close>

record render_config =
  show_symbolic :: bool
  show_substitution :: bool
  show_result :: bool

text \<open>The \<^verbatim>\<open>parts\<close> of a line whose right-hand side is not a literal.\<close>

definition calculation_parts ::
    "(pyfloat \<Rightarrow> string) \<Rightarrow> render_config \<Rightarrow> expr \<Rightarrow> namespace \<Rightarrow> string \<Rightarrow> py_exception + string list" where
  "calculation_parts r cfg expr namespace value_str =
     bindE (if show_symbolic cfg
            then bindE (expr_to_latex r expr namespace) (\<lambda>symbolic. Inr [symbolic])
            else Inr []) (\<lambda>parts1.
     bindE (if show_substitution cfg
            then bindE (substitute_values r expr namespace) (\<lambda>substituted.
                   if \<not> show_symbolic cfg then Inr [substituted]
                   else bindE (expr_to_latex r expr namespace) (\<lambda>again.
                          Inr (if substituted \<noteq> again then [substituted] else [])))
            else Inr []) (\<lambda>parts2.
     Inr (parts1 @ parts2 @ (if show_result cfg then [value_str] else []))))"

text \<open>
  The state of the loop over \<^verbatim>\<open>tree.body\<close>: the namespace, \<^verbatim>\<open>latex_lines\<close> and
  \<^verbatim>\<open>simple_assignments\<close>.
\<close>

type_synonym loop_state = "namespace \<times> string list \<times> bool list"

fun is_Constant :: "expr \<Rightarrow> bool" where
  "is_Constant (Constant v) = True"
| "is_Constant _ = False"

text \<open>
  One iteration.  A plain assignment runs under \<^verbatim>\<open>except Exception\<close>, an augmented
  one under a bare \<^verbatim>\<open>except:\<close>; \<^verbatim>\<open>namespace[var_name]\<close> is inside the \<^verbatim>\<open>try\<close>, so a
  missing key is skipped like any failure.  Formatting and rendering run outside it.
\<close>

fun process_node ::
    "(pyfloat \<Rightarrow> string) \<Rightarrow> evaluator \<Rightarrow> render_config \<Rightarrow> stmt \<Rightarrow> loop_state \<Rightarrow> py_exception + loop_state" where
  "process_node r exec cfg (Assign [Name var_name] expr) (namespace, latex_lines, simple_assignments) =
     (case exec (Assign [Name var_name] expr) namespace of
        Raised exc namespace' \<Rightarrow>
          if is_Exception exc then Inr (namespace', latex_lines, simple_assignments) else Inl exc
      | Completed namespace' \<Rightarrow>
          (case namespace' var_name of
             None \<Rightarrow> Inr (namespace', latex_lines, simple_assignments)
           | Some v \<Rightarrow>
               bindE (format_value r v) (\<lambda>value_str.
                 let var_latex = name_to_latex var_name;
                     is_simple = is_Constant expr
                 in if is_simple then
                      Inr (namespace', latex_lines @ [var_latex @ '' &= '' @ value_str],
                           simple_assignments @ [is_simple])
                    else
                      bindE (calculation_parts r cfg expr namespace' value_str) (\<lambda>parts.
                        Inr (namespace', latex_lines @ [var_latex @ '' &= '' @ join '' = '' parts],
                             simple_assignments @ [is_simple])))))"
| "process_node r exec cfg (AugAssign (Name var_name) op expr) (namespace, latex_lines, simple_assignments) =
     (case exec (AugAssign (Name var_name) op expr) namespace of
        Raised exc namespace' \<Rightarrow> Inr (namespace', latex_lines, simple_assignments)
      | Completed namespace' \<Rightarrow>
          (case namespace' var_name of
             None \<Rightarrow> Inr (namespace', latex_lines, simple_assignments)
           | Some v \<Rightarrow>
               bindE (format_value r v) (\<lambda>value_str.
                 Inr (namespace', latex_lines @ [name_to_latex var_name @ '' &= '' @ value_str],
                      simple_assignments @ [True]))))"
| "process_node r exec cfg node state = Inr state"

fun process_body ::
    "(pyfloat \<Rightarrow> string) \<Rightarrow> evaluator \<Rightarrow> render_config \<Rightarrow> stmt list \<Rightarrow> loop_state \<Rightarrow> py_exception + loop_state" where
  "process_body r exec cfg [] state = Inr state"
| "process_body r exec cfg (node # body) state =
     bindE (process_node r exec cfg node state) (process_body r exec cfg body)"

text \<open>\<^verbatim>\<open>enumerate(zip(latex_lines, simple_assignments))\<close>.\<close>

definition enumerate_zip :: "string list \<Rightarrow> bool list \<Rightarrow> (nat \<times> string \<times> bool) list" where
  "enumerate_zip latex_lines simple_assignments =
     (let pairs = zip latex_lines simple_assignments in zip [0 ..< length pairs] pairs)"

text \<open>
  The loop that builds \<^verbatim>\<open>result_lines\<close>.  \<^verbatim>\<open>simple_assignments[i-1]\<close> is read only
  for a position \<open>i > 0\<close> of the zipped list, hence in range.
\<close>

fun result_lines :: "bool list \<Rightarrow> (nat \<times> string \<times> bool) list \<Rightarrow> string list" where
  "result_lines simple_assignments [] = []"
| "result_lines simple_assignments ((i, line, is_simple) # rest) =
     (if i > 0 then
        (let prev_simple = simple_assignments ! (i - 1)
         in if prev_simple \<and> \<not> is_simple then [tex (tex ''[10pt]'')] else [tex (tex [])])
      else [])
     @ [line] @ result_lines simple_assignments rest"

definition assemble :: "string list \<Rightarrow> bool list \<Rightarrow> string" where
  "assemble latex_lines simple_assignments =
     (if latex_lines \<noteq> [] then
        tex ''begin{aligned}'' @ nl
          @ join nl (result_lines simple_assignments (enumerate_zip latex_lines simple_assignments))
          @ nl @ tex ''end{aligned}''
      else [])"

text \<open>
  The conversion, from the statements \<^verbatim>\<open>ast.parse(code)\<close> returned
  (\<^verbatim>\<open>tree.body\<close>): the parser is the caller's side of the interface, and its
  \<^verbatim>\<open>SyntaxError\<close> leaves before the first statement is looked at.
\<close>

definition python_to_latex ::
    "(pyfloat \<Rightarrow> string) \<Rightarrow> evaluator \<Rightarrow> stmt list \<Rightarrow> render_config \<Rightarrow> py_exception + (string \<times> namespace)" where
  "python_to_latex r exec body cfg =
     bindE (process_body r exec cfg body (initial_namespace, [], []))
       (\<lambda>(namespace, latex_lines, simple_assignments).
          Inr (assemble latex_lines simple_assignments, namespace))"

section \<open>A reference evaluator for a fragment\<close>

text \<open>
  The theorems below hold for every evaluator and every choice of float digits.
  To run the conversion on concrete programs they are instantiated with an evaluator
  for the fragment of literals, names and \<^verbatim>\<open>+\<close>, \<^verbatim>\<open>-\<close>, \<^verbatim>\<open>*\<close> on integers, on which
  it binds what the interpreter binds and raises \<^verbatim>\<open>NameError\<close> where the
  interpreter does (for a name that is neither bound nor a built-in).  Outside the
  fragment it reports a failure, which the interpreter need not do; the namespace it
  returns leaves out the \<^verbatim>\<open>__builtins__\<close> entry that \<^verbatim>\<open>exec\<close> adds.
\<close>

fun int_binop :: "operator \<Rightarrow> pyvalue \<Rightarrow> pyvalue \<Rightarrow> py_exception + pyvalue" where
  "int_binop Add (VInt a) (VInt b) = Inr (VInt (a + b))"
| "int_binop Sub (VInt a) (VInt b) = Inr (VInt (a - b))"
| "int_binop Mult (VInt a) (VInt b) = Inr (VInt (a * b))"
| "int_binop _ _ _ = Inl (OtherException ''outside the fragment'')"

fun fragment_eval :: "namespace \<Rightarrow> expr \<Rightarrow> py_exception + pyvalue" where
  "fragment_eval ns (Constant v) = Inr v"
| "fragment_eval ns (Name ident) = (case ns ident of None \<Rightarrow> Inl NameError | Some v \<Rightarrow> Inr v)"
| "fragment_eval ns (BinOp l op rgt) =
     bindE (fragment_eval ns l) (\<lambda>a. bindE (fragment_eval ns rgt) (\<lambda>b. int_binop op a b))"
| "fragment_eval ns _ = Inl (OtherException ''outside the fragment'')"

fun fragment_exec :: evaluator where
  "fragment_exec (Assign [Name x] e) ns =
     (case fragment_eval ns e of Inl exc \<Rightarrow> Raised exc ns | Inr v \<Rightarrow> Completed (ns(x \<mapsto> v)))"
| "fragment_exec (AugAssign (Name x) op e) ns =
     (case fragment_eval ns (BinOp (Name x) op e) of
        Inl exc \<Rightarrow> Raised exc ns | Inr v \<Rightarrow> Completed (ns(x \<mapsto> v)))"
| "fragment_exec _ ns = Raised (OtherException ''outside the fragment'') ns"

text \<open>
  Seventeen significant digits always read back as the same double; the
  interpreter prints the shortest text that does, which is the same text for the
  doubles of the examples (integers of small magnitude).
\<close>

definition digits17 :: "pyfloat \<Rightarrow> string" where
  "digits17 x = format_g 17 x"

definition show_all :: render_config where
  "show_all = \<lparr>show_symbolic = True, show_substitution = True, show_result = True\<rparr>"

text \<open>The row break the assembler puts between a line and the one before it.\<close>

definition row_break :: "bool \<Rightarrow> bool \<Rightarrow> string" where
  "row_break prev_simple is_simple =
     (if prev_simple \<and> \<not> is_simple then tex (tex ''[10pt]'') else tex (tex []))"

text \<open>
  Three programs of the fragment, as \<^verbatim>\<open>ast.parse\<close> returns them:
  \<^verbatim>\<open>x = 5; y = 10; z = x + y\<close>, then \<^verbatim>\<open>a = 2; b = undefined_name + 1; c = a * 3\<close>, and
  \<^verbatim>\<open>x = 1e999\<close> (a float literal too large for a double is the constant \<^verbatim>\<open>inf\<close>).
\<close>

definition sum_program :: "stmt list" where
  "sum_program =
     [Assign [Name ''x''] (Constant (VInt 5)),
      Assign [Name ''y''] (Constant (VInt 10)),
      Assign [Name ''z''] (BinOp (Name ''x'') Add (Name ''y''))]"

definition skip_program :: "stmt list" where
  "skip_program =
     [Assign [Name ''a''] (Constant (VInt 2)),
      Assign [Name ''b''] (BinOp (Name ''undefined_name'') Add (Constant (VInt 1))),
      Assign [Name ''c''] (BinOp (Name ''a'') Mult (Constant (VInt 3)))]"

definition overflow_program :: "stmt list" where
  "overflow_program = [Assign [Name ''x''] (Constant (VFloat PInf))]"

text \<open>
  The reference evaluator extended by the call \<^verbatim>\<open>exit()\<close> of the interpreter's
  built-in, which raises \<^verbatim>\<open>SystemExit\<close>: in a plain assignment when the name
  \<^verbatim>\<open>exit\<close> is not rebound, in an augmented assignment when moreover the target is
  bound (it is read first).  Two programs with it:
  \<^verbatim>\<open>a = 2; x = exit(); c = a * 3\<close> and \<^verbatim>\<open>a = 2; a += exit(); c = a * 3\<close>.
\<close>

fun is_exit_call :: "expr \<Rightarrow> bool" where
  "is_exit_call (Call (Name f) [] []) = (f = ''exit'')"
| "is_exit_call _ = False"

fun exiting_exec :: evaluator where
  "exiting_exec (Assign [Name x] e) ns =
     (if is_exit_call e \<and> ns ''exit'' = None then Raised SystemExit ns
      else fragment_exec (Assign [Name x] e) ns)"
| "exiting_exec (AugAssign (Name x) op e) ns =
     (if is_exit_call e \<and> ns ''exit'' = None \<and> ns x \<noteq> None then Raised SystemExit ns
      else fragment_exec (AugAssign (Name x) op e) ns)"
| "exiting_exec node ns = fragment_exec node ns"

definition exit_program :: "stmt list" where
  "exit_program =
     [Assign [Name ''a''] (Constant (VInt 2)),
      Assign [Name ''x''] (Call (Name ''exit'') [] []),
      Assign [Name ''c''] (BinOp (Name ''a'') Mult (Constant (VInt 3)))]"

definition aug_exit_program :: "stmt list" where
  "aug_exit_program =
     [Assign [Name ''a''] (Constant (VInt 2)),
      AugAssign (Name ''a'') Add (Call (Name ''exit'') [] []),
      Assign [Name ''c''] (BinOp (Name ''a'') Mult (Constant (VInt 3)))]"

section \<open>Evaluation on concrete inputs\<close>

text \<open>Floors and ceilings of rational numerals, for the simplifier.\<close>

lemma floor_rat_numeral_divide:
  "\<lfloor>numeral a / numeral b :: rat\<rfloor> = numeral a div numeral b"
  by (metis floor_divide_of_int_eq of_int_numeral)

lemma floor_rat_one_divide: "\<lfloor>1 / numeral b :: rat\<rfloor> = 1 div numeral b"
  by (metis floor_divide_of_int_eq of_int_1 of_int_numeral)

lemma floor_rat_minus_divide:
  "\<lfloor>- (numeral a / numeral b) :: rat\<rfloor> = - numeral a div numeral b"
  by (metis divide_minus_left floor_divide_of_int_eq of_int_neg_numeral of_int_numeral)

lemma floor_rat_minus_one_divide: "\<lfloor>- (1 / numeral b) :: rat\<rfloor> = - 1 div numeral b"
  by (metis divide_minus_left floor_divide_of_int_eq of_int_minus of_int_1 of_int_numeral)

lemma ceiling_rat_numeral_divide:
  "\<lceil>numeral a / numeral b :: rat\<rceil> = - (- numeral a div numeral b)"
  using ceiling_divide_eq_div [of "numeral a" "numeral b"] by simp

lemma ceiling_rat_one_divide: "\<lceil>1 / numeral b :: rat\<rceil> = - (- 1 div numeral b)"
  using ceiling_divide_eq_div [of 1 "numeral b"] by simp

lemma replicate_numeral_unfold: "replicate (numeral k) x = x # replicate (pred_numeral k) x"
  by (simp add: numeral_eq_Suc)

lemmas format_g_eval =
  format_g_pos_def sig_digits_def decimal_exponent_def scale10_def round_half_even_def
  with_fraction_def strip_zeros_def exponent_text_def nat_digits.simps digit_char_def Let_def
  floor_rat_numeral_divide floor_rat_one_divide floor_rat_minus_divide
  floor_rat_minus_one_divide ceiling_rat_numeral_divide ceiling_rat_one_divide
  replicate_numeral_unfold

lemma format_g_leading_zeros:
  "format_g 6 (Fin (1 / 10000)) = ''0.0001'' \<and> format_g 6 (Fin (3 / 1000)) = ''0.003''
   \<and> format_g 6 (Fin (1 / 100000)) = ''1e-05''"
  by (simp add: format_g_eval)

lemmas greek_eval = greek_def GREEK_LETTERS_def

lemmas name_eval = name_to_latex_def split_first_def greek_eval

section \<open>The identifier renderer: splitting at the first underscore\<close>

lemma split_first_append:
  assumes "CHR ''_'' \<notin> set base"
  shows "split_first (base @ CHR ''_'' # subscript) = (base, subscript)"
proof -
  have "\<And>c. c \<in> set base \<Longrightarrow> c \<noteq> CHR ''_''" using assms by auto
  then show ?thesis
    by (simp add: split_first_def takeWhile_append2 dropWhile_append2)
qed

lemma name_to_latex_underscore:
  assumes "CHR ''_'' \<notin> set base"
  shows "name_to_latex (base @ CHR ''_'' # subscript) = greek base @ ''_{'' @ greek subscript @ ''}''"
  by (simp add: name_to_latex_def split_first_append [OF assms] Let_def)

lemma name_to_latex_plain: "CHR ''_'' \<notin> set name \<Longrightarrow> name_to_latex name = greek name"
  by (simp add: name_to_latex_def)

text \<open>
  Claim C6.  \<open>name_to_latex\<close> is a total function of the name alone.  A name
  \<open>base_subscript\<close> whose \<open>base\<close> holds no underscore renders as
  \<open>greek base @ _{ @ greek subscript @ }\<close>, and every name that holds an underscore is
  of that shape, the split being at its first underscore; a name with no underscore
  renders as \<open>greek name\<close>.  \<open>greek\<close> is the table entry when the exact key is present
  and the text itself otherwise, so \<^verbatim>\<open>gamma\<close> and \<^verbatim>\<open>Gamma\<close> map to different symbols and
  \<^verbatim>\<open>GAMMA\<close> to itself.  \<^verbatim>\<open>Gamma_L\<close> renders as \<^verbatim>\<open>\Gamma_{L}\<close>, \<^verbatim>\<open>V_in\<close> as \<^verbatim>\<open>V_{in}\<close> and
  \<^verbatim>\<open>inf\<close> as \<^verbatim>\<open>\infty\<close>.
\<close>

theorem name_to_latex_spec:
  "(CHR ''_'' \<notin> set base \<longrightarrow>
      name_to_latex (base @ CHR ''_'' # subscript) = greek base @ ''_{'' @ greek subscript @ ''}'')
   \<and> (CHR ''_'' \<in> set full \<longrightarrow>
        (\<exists>b s. full = b @ CHR ''_'' # s \<and> CHR ''_'' \<notin> set b
           \<and> name_to_latex full = greek b @ ''_{'' @ greek s @ ''}''))
   \<and> (CHR ''_'' \<notin> set name \<longrightarrow> name_to_latex name = greek name)
   \<and> greek key = (case map_of GREEK_LETTERS key of Some g \<Rightarrow> g | None \<Rightarrow> key)
   \<and> name_to_latex ''Gamma_L'' = tex ''Gamma_{L}''
   \<and> name_to_latex ''V_in'' = ''V_{in}''
   \<and> name_to_latex ''inf'' = tex ''infty''
   \<and> greek ''gamma'' = tex ''gamma'' \<and> greek ''Gamma'' = tex ''Gamma'' \<and> greek ''GAMMA'' = ''GAMMA''"
proof -
  have under: "CHR ''_'' \<in> set full \<longrightarrow>
        (\<exists>b s. full = b @ CHR ''_'' # s \<and> CHR ''_'' \<notin> set b
           \<and> name_to_latex full = greek b @ ''_{'' @ greek s @ ''}'')"
  proof
    assume "CHR ''_'' \<in> set full"
    then obtain b s where "full = b @ CHR ''_'' # s" and "CHR ''_'' \<notin> set b"
      by (auto dest: split_list_first)
    then show "\<exists>b s. full = b @ CHR ''_'' # s \<and> CHR ''_'' \<notin> set b
           \<and> name_to_latex full = greek b @ ''_{'' @ greek s @ ''}''"
      using name_to_latex_underscore by blast
  qed
  have table: "greek key = (case map_of GREEK_LETTERS key of Some g \<Rightarrow> g | None \<Rightarrow> key)"
    by (simp add: greek_def split: option.splits)
  have ex1: "name_to_latex ''Gamma_L'' = tex ''Gamma_{L}''"
    by (simp add: name_eval)
  have ex2: "name_to_latex ''V_in'' = ''V_{in}''"
    by (simp add: name_eval)
  have ex3: "name_to_latex ''inf'' = tex ''infty''"
    by (simp add: name_eval)
  have ex4: "greek ''gamma'' = tex ''gamma'' \<and> greek ''Gamma'' = tex ''Gamma'' \<and> greek ''GAMMA'' = ''GAMMA''"
    by (simp add: greek_eval)
  show ?thesis
    using under table ex1 ex2 ex3 ex4
    by (simp add: name_to_latex_underscore name_to_latex_plain)
qed

theorem name_to_latex_spec_witness:
  "CHR ''_'' \<notin> set ''x'' \<and> name_to_latex (''x'' @ CHR ''_'' # ''1_a'') = ''x_{1_a}''
   \<and> CHR ''_'' \<in> set ''alpha_beta''
   \<and> (\<exists>b s. ''alpha_beta'' = b @ CHR ''_'' # s \<and> CHR ''_'' \<notin> set b
         \<and> name_to_latex ''alpha_beta'' = greek b @ ''_{'' @ greek s @ ''}'')
   \<and> CHR ''_'' \<notin> set ''omega'' \<and> name_to_latex ''omega'' = tex ''omega''"
  using name_to_latex_spec [of "''x''" "''1_a''" "''alpha_beta''" "''omega''" "''omega''"]
  by (simp add: greek_eval)

section \<open>The value formatter on complex numbers\<close>

lemma nat_digits_nonempty: "nat_digits n \<noteq> []"
  by (subst nat_digits.simps) simp

lemma with_fraction_nonempty: "whole \<noteq> [] \<Longrightarrow> with_fraction whole digits \<noteq> []"
  by (simp add: with_fraction_def Let_def)

lemma format_g_pos_nonempty: "format_g_pos p a \<noteq> []"
  by (auto simp: format_g_pos_def Let_def exponent_text_def nat_digits_nonempty
      intro!: with_fraction_nonempty split: prod.splits)

lemma format_g_nonempty: "format_g p x \<noteq> []"
  by (cases x) (simp_all add: format_g_pos_nonempty)

text \<open>
  Claim C4.  For every complex value the real part is left out exactly when it
  compares equal to zero; the imaginary part is \<^verbatim>\<open>j\<close> when it is exactly 1, \<^verbatim>\<open>-j\<close> when
  it is exactly -1, and its six-significant-digit general form followed by \<^verbatim>\<open>j\<close>
  otherwise; a real part that is present is joined with \<^verbatim>\<open> + \<close> when the imaginary part
  is non-negative and with one space otherwise.  \<^verbatim>\<open>3+1j\<close> gives \<^verbatim>\<open>3 + j\<close>, \<^verbatim>\<open>0-2j\<close> gives
  \<^verbatim>\<open>-2j\<close> and \<^verbatim>\<open>-1-1j\<close> gives \<^verbatim>\<open>-1 -j\<close>.  (The code tests the text of the real part
  for emptiness; the general form of a number is never empty.)
\<close>

theorem format_value_complex:
  "format_value r (VComplex re im) =
     Inr (let imag = (if float_eq im 1 then ''j''
                      else if float_eq im (- 1) then ''-j''
                      else format_g 6 im @ ''j'')
          in if float_eq re 0 then imag
             else if float_ge im 0 then format_g 6 re @ '' + '' @ imag
             else format_g 6 re @ '' '' @ imag)
   \<and> format_value r (VComplex (Fin 3) (Fin 1)) = Inr ''3 + j''
   \<and> format_value r (VComplex (Fin 0) (Fin (- 2))) = Inr ''-2j''
   \<and> format_value r (VComplex (Fin (- 1)) (Fin (- 1))) = Inr ''-1 -j''"
proof -
  have general: "format_value r (VComplex re im) =
     Inr (let imag = (if float_eq im 1 then ''j''
                      else if float_eq im (- 1) then ''-j''
                      else format_g 6 im @ ''j'')
          in if float_eq re 0 then imag
             else if float_ge im 0 then format_g 6 re @ '' + '' @ imag
             else format_g 6 re @ '' '' @ imag)"
    by (simp add: Let_def float_ne_def format_g_nonempty)
  have ex1: "format_value r (VComplex (Fin 3) (Fin 1)) = Inr ''3 + j''"
    by (simp add: float_ne_def format_g_eval)
  have ex2: "format_value r (VComplex (Fin 0) (Fin (- 2))) = Inr ''-2j''"
    by (simp add: float_ne_def format_g_eval)
  have ex3: "format_value r (VComplex (Fin (- 1)) (Fin (- 1))) = Inr ''-1 -j''"
    by (simp add: float_ne_def format_g_eval)
  show ?thesis using general ex1 ex2 ex3 by blast
qed

section \<open>Parentheses in the symbolic renderer\<close>

lemma is_additive_BinOp_iff:
  "is_additive_BinOp node \<longleftrightarrow> (\<exists>a inner b. node = BinOp a inner b \<and> (inner = Add \<or> inner = Sub))"
  by (cases node) (auto simp: is_additive_BinOp_def)

text \<open>
  Claim C3.  When both operands of a \<open>BinOp\<close> render, the left operand is wrapped in
  \<^verbatim>\<open>\left(...\right)\<close> exactly when it is itself a \<open>BinOp\<close> with operator \<open>Add\<close> or
  \<open>Sub\<close> and the outer operator is \<open>Mult\<close>, \<open>Div\<close> or \<open>PowOp\<close>; the right operand
  exactly when it is such a \<open>BinOp\<close> and the outer operator is \<open>Mult\<close> or \<open>PowOp\<close>, so
  never under a division.  \<^verbatim>\<open>(a+b)*c\<close> and \<^verbatim>\<open>(a+b)/c\<close> wrap the sum, \<^verbatim>\<open>a/(b+c)\<close> does
  not wrap the denominator, \<^verbatim>\<open>a*(b+c)\<close> wraps the right operand.
\<close>

theorem BinOp_parentheses:
  "(expr_to_latex r l ns = Inr left \<longrightarrow> expr_to_latex r rgt ns = Inr right \<longrightarrow>
      expr_to_latex r (BinOp l op rgt) ns =
        Inr (binop_latex op
          (if (\<exists>a inner b. l = BinOp a inner b \<and> (inner = Add \<or> inner = Sub))
                \<and> (op = Mult \<or> op = Div \<or> op = PowOp)
           then tex ''left('' @ left @ tex ''right)'' else left)
          (if (\<exists>a inner b. rgt = BinOp a inner b \<and> (inner = Add \<or> inner = Sub))
                \<and> (op = Mult \<or> op = PowOp)
           then tex ''left('' @ right @ tex ''right)'' else right)))
   \<and> expr_to_latex r (BinOp (BinOp (Name ''a'') Add (Name ''b'')) Mult (Name ''c'')) ns
        = Inr (tex ''left(a + b'' @ tex ''right) '' @ tex ''cdot c'')
   \<and> expr_to_latex r (BinOp (BinOp (Name ''a'') Add (Name ''b'')) Div (Name ''c'')) ns
        = Inr (tex ''frac{'' @ tex ''left(a + b'' @ tex ''right)}{c}'')
   \<and> expr_to_latex r (BinOp (Name ''a'') Div (BinOp (Name ''b'') Add (Name ''c''))) ns
        = Inr (tex ''frac{a}{b + c}'')
   \<and> expr_to_latex r (BinOp (Name ''a'') Mult (BinOp (Name ''b'') Add (Name ''c''))) ns
        = Inr (''a '' @ tex ''cdot '' @ tex ''left(b + c'' @ tex ''right)'')"
proof -
  have general: "expr_to_latex r l ns = Inr left \<longrightarrow> expr_to_latex r rgt ns = Inr right \<longrightarrow>
      expr_to_latex r (BinOp l op rgt) ns =
        Inr (binop_latex op
          (if (\<exists>a inner b. l = BinOp a inner b \<and> (inner = Add \<or> inner = Sub))
                \<and> (op = Mult \<or> op = Div \<or> op = PowOp)
           then tex ''left('' @ left @ tex ''right)'' else left)
          (if (\<exists>a inner b. rgt = BinOp a inner b \<and> (inner = Add \<or> inner = Sub))
                \<and> (op = Mult \<or> op = PowOp)
           then tex ''left('' @ right @ tex ''right)'' else right))"
    unfolding is_additive_BinOp_iff [symmetric]
    by (cases op) (simp_all add: bindE_def Let_def left_right_def)
  have ex1: "expr_to_latex r (BinOp (BinOp (Name ''a'') Add (Name ''b'')) Mult (Name ''c'')) ns
        = Inr (tex ''left(a + b'' @ tex ''right) '' @ tex ''cdot c'')"
    by (simp add: bindE_def is_additive_BinOp_def left_right_def name_eval)
  have ex2: "expr_to_latex r (BinOp (BinOp (Name ''a'') Add (Name ''b'')) Div (Name ''c'')) ns
        = Inr (tex ''frac{'' @ tex ''left(a + b'' @ tex ''right)}{c}'')"
    by (simp add: bindE_def is_additive_BinOp_def left_right_def name_eval)
  have ex3: "expr_to_latex r (BinOp (Name ''a'') Div (BinOp (Name ''b'') Add (Name ''c''))) ns
        = Inr (tex ''frac{a}{b + c}'')"
    by (simp add: bindE_def is_additive_BinOp_def left_right_def name_eval)
  have ex4: "expr_to_latex r (BinOp (Name ''a'') Mult (BinOp (Name ''b'') Add (Name ''c''))) ns
        = Inr (''a '' @ tex ''cdot '' @ tex ''left(b + c'' @ tex ''right)'')"
    by (simp add: bindE_def is_additive_BinOp_def left_right_def name_eval)
  show ?thesis using general ex1 ex2 ex3 ex4 by blast
qed

theorem BinOp_parentheses_witness:
  "expr_to_latex digits17 (BinOp (Name ''x'') Sub (Constant (VInt 1))) Map.empty = Inr ''x - 1''
   \<and> expr_to_latex digits17 (Name ''n'') Map.empty = Inr ''n''
   \<and> expr_to_latex digits17 (BinOp (BinOp (Name ''x'') Sub (Constant (VInt 1))) PowOp (Name ''n'')) Map.empty
        = Inr (tex ''left(x - 1'' @ tex ''right)^{n}'')"
  using BinOp_parentheses [of digits17 "BinOp (Name ''x'') Sub (Constant (VInt 1))" Map.empty "''x - 1''"
      "Name ''n''" "''n''" PowOp]
  by (simp add: bindE_def name_eval str_int_def nat_digits.simps digit_char_def)

section \<open>Identifier leaves of the substituted form\<close>

text \<open>
  Claim C10.  A name bound to \<^verbatim>\<open>None\<close> is rendered by the substitution renderer as
  its symbolic LaTeX name, the same output as for the namespace with the binding
  removed: \<^verbatim>\<open>namespace.get\<close> answers \<^verbatim>\<open>None\<close> in both cases.
\<close>

theorem substitute_Name_None:
  "namespace ident = Some VNone \<longrightarrow>
     substitute_values r (Name ident) namespace = Inr (name_to_latex ident)
     \<and> substitute_values r (Name ident) namespace
         = substitute_values r (Name ident) (namespace(ident := None))"
  by (simp add: dict_get_def)

theorem substitute_Name_None_witness:
  "[''R_1'' \<mapsto> VNone] ''R_1'' = Some VNone
   \<and> substitute_values digits17 (Name ''R_1'') [''R_1'' \<mapsto> VNone] = Inr ''R_{1}''
   \<and> substitute_values digits17 (Name ''R_1'') [''R_1'' \<mapsto> VNone]
        = substitute_values digits17 (Name ''R_1'') Map.empty
   \<and> py_str digits17 VNone = ''None''"
  using substitute_Name_None [of "[''R_1'' \<mapsto> VNone]" "''R_1''" digits17]
  by (simp add: dict_get_def Let_def name_eval)

text \<open>
  Claim C2 says that a bound name renders as the value formatter renders its value.
  It does not: the substitution renderer never calls \<open>format_value\<close>.  A bound
  \<^verbatim>\<open>True\<close> gives \<^verbatim>\<open>True\<close>, not \<^verbatim>\<open>\text{True}\<close>; a bound \<^verbatim>\<open>3+1j\<close> gives \<^verbatim>\<open>(3+1j)\<close>, not
  \<^verbatim>\<open>3 + j\<close>; a bound \<^verbatim>\<open>1234567.0\<close> gives \<^verbatim>\<open>1.23457e+06\<close>, not \<^verbatim>\<open>1234567\<close>.
\<close>

theorem substitute_Name_differs_from_format_value:
  "substitute_values digits17 (Name ''ok'') [''ok'' \<mapsto> VBool True] = Inr ''True''
   \<and> format_value digits17 (VBool True) = Inr (tex ''text{True}'')
   \<and> substitute_values digits17 (Name ''z'') [''z'' \<mapsto> VComplex (Fin 3) (Fin 1)] = Inr ''(3+1j)''
   \<and> format_value digits17 (VComplex (Fin 3) (Fin 1)) = Inr ''3 + j''
   \<and> substitute_values digits17 (Name ''n'') [''n'' \<mapsto> VFloat (Fin 1234567)] = Inr ''1.23457e+06''
   \<and> format_value digits17 (VFloat (Fin 1234567)) = Inr ''1234567''"
  by (simp add: dict_get_def digits17_def signed_text_def float_ne_def bindE_def str_int_def
      float_1e_10_def format_g_eval)

text \<open>
  Claim C2, as amended.  A name bound to a value other than \<^verbatim>\<open>None\<close> renders as the
  six-significant-digit general form of the value when it is a float and as \<^verbatim>\<open>str\<close> of
  the value otherwise; for an integer or a string that is what the value formatter
  gives.  An unbound name renders as its symbolic LaTeX name.
\<close>

theorem substitute_Name_leaf:
  "(namespace ident = Some v \<longrightarrow> v \<noteq> VNone \<longrightarrow>
      substitute_values r (Name ident) namespace
        = Inr (case v of VFloat x \<Rightarrow> format_g 6 x | _ \<Rightarrow> py_str r v))
   \<and> (namespace ident = Some (VInt i) \<longrightarrow>
        substitute_values r (Name ident) namespace = format_value r (VInt i))
   \<and> (namespace1 ident1 = Some (VStr s) \<longrightarrow>
        substitute_values r (Name ident1) namespace1 = format_value r (VStr s))
   \<and> (namespace2 ident2 = None \<longrightarrow>
        substitute_values r (Name ident2) namespace2 = Inr (name_to_latex ident2))"
  by (cases v) (simp_all add: dict_get_def)

theorem substitute_Name_leaf_witness:
  "[''n'' \<mapsto> VInt 42] ''n'' = Some (VInt 42) \<and> VInt 42 \<noteq> VNone
   \<and> substitute_values digits17 (Name ''n'') [''n'' \<mapsto> VInt 42] = Inr ''42''
   \<and> format_value digits17 (VInt 42) = Inr ''42''
   \<and> [''unit'' \<mapsto> VStr ''ohm''] ''unit'' = Some (VStr ''ohm'')
   \<and> substitute_values digits17 (Name ''unit'') [''unit'' \<mapsto> VStr ''ohm''] = Inr ''ohm''
   \<and> Map.empty ''omega_0'' = (None :: pyvalue option)
   \<and> substitute_values digits17 (Name ''omega_0'') Map.empty = Inr (tex ''omega_{0}'')"
  using substitute_Name_leaf [of "[''n'' \<mapsto> VInt 42]" "''n''" "VInt 42" digits17 42
      "[''unit'' \<mapsto> VStr ''ohm'']" "''unit''" "''ohm''" Map.empty "''omega_0''"]
  by (simp add: name_eval str_int_def nat_digits.simps digit_char_def)

section \<open>The value formatter on floats\<close>

lemma round_half_even_nearest:
  assumes "\<bar>q - of_int N\<bar> < 1 / 2"
  shows "round_half_even q = N"
proof (cases "of_int N \<le> q")
  case True
  have "\<lfloor>q\<rfloor> = N"
    by (rule floor_unique) (use assms True in linarith)+
  then show ?thesis
    using assms True by (simp add: round_half_even_def Let_def)
next
  case False
  from assms False have "of_int N - 1 \<le> q" and "q < of_int N"
    by linarith+
  then have "\<lfloor>q\<rfloor> = N - 1"
    by (intro floor_unique) simp_all
  then show ?thesis
    using assms False by (simp add: round_half_even_def Let_def)
qed

lemma float_1e_10_small: "float_1e_10 < 1 / 2"
  by (simp add: float_1e_10_def)

lemma digit_char_digit: "d < 10 \<Longrightarrow> digit_char d \<in> set ''0123456789''"
  unfolding digit_char_def by (rule nth_mem) simp

lemma nat_digits_digits: "set (nat_digits n) \<subseteq> set ''0123456789''"
proof (induction n rule: nat_digits.induct)
  case (1 n)
  show ?case
  proof (cases "n < 10")
    case True
    then show ?thesis
      using digit_char_digit [of n] by (subst nat_digits.simps) simp
  next
    case False
    have "n mod 10 < 10" by simp
    then have "digit_char (n mod 10) \<in> set ''0123456789''" by (rule digit_char_digit)
    with False "1.IH" show ?thesis
      by (subst nat_digits.simps) simp
  qed
qed

lemma str_int_no_point: "CHR ''.'' \<notin> set (str_int N)"
  using nat_digits_digits [of "nat N"] nat_digits_digits [of "nat (- N)"]
  by (auto simp: str_int_def)

text \<open>
  Claim C5, as amended.  A finite float at distance less than \<^verbatim>\<open>1e-10\<close> (the double)
  from an integer \<open>N\<close> is rendered as the decimal text of \<open>N\<close>, which holds no decimal
  point; a finite float at distance at least \<^verbatim>\<open>1e-10\<close> from every integer is rendered in
  the general form with six significant digits; \<^verbatim>\<open>-0.0\<close> is rendered \<^verbatim>\<open>0\<close>.  So
  \<^verbatim>\<open>1234567.0\<close> gives \<^verbatim>\<open>1234567\<close>, \<^verbatim>\<open>3.0000000000000004\<close> gives \<^verbatim>\<open>3\<close>, \<^verbatim>\<open>2.5\<close> gives \<^verbatim>\<open>2.5\<close> and
  \<^verbatim>\<open>math.pi\<close> gives \<^verbatim>\<open>3.14159\<close>.
\<close>

theorem format_value_float:
  "(\<bar>q - of_int N\<bar> < float_1e_10 \<longrightarrow>
      format_value r (VFloat (Fin q)) = Inr (str_int N) \<and> CHR ''.'' \<notin> set (str_int N))
   \<and> ((\<forall>M. float_1e_10 \<le> \<bar>q' - of_int M\<bar>) \<longrightarrow>
        format_value r (VFloat (Fin q')) = Inr (format_g 6 (Fin q')))
   \<and> format_value r (VFloat NegZero) = Inr ''0''
   \<and> format_value r (VFloat (Fin 1234567)) = Inr ''1234567''
   \<and> format_value r (VFloat (Fin (3 + 1 / 2 ^ 51))) = Inr ''3''
   \<and> format_value r (VFloat (Fin (5 / 2))) = Inr ''2.5''
   \<and> format_value r (VFloat (Fin (884279719003555 / 2 ^ 48))) = Inr ''3.14159''"
proof -
  have snap: "\<bar>q - of_int N\<bar> < float_1e_10 \<longrightarrow>
      format_value r (VFloat (Fin q)) = Inr (str_int N) \<and> CHR ''.'' \<notin> set (str_int N)"
  proof
    assume near: "\<bar>q - of_int N\<bar> < float_1e_10"
    then have "round_half_even q = N"
      using float_1e_10_small by (intro round_half_even_nearest) linarith
    with near show "format_value r (VFloat (Fin q)) = Inr (str_int N) \<and> CHR ''.'' \<notin> set (str_int N)"
      by (simp add: bindE_def str_int_no_point)
  qed
  have general: "(\<forall>M. float_1e_10 \<le> \<bar>q' - of_int M\<bar>) \<longrightarrow>
        format_value r (VFloat (Fin q')) = Inr (format_g 6 (Fin q'))"
  proof
    assume far: "\<forall>M. float_1e_10 \<le> \<bar>q' - of_int M\<bar>"
    then have "\<not> \<bar>q' - of_int (round_half_even q')\<bar> < float_1e_10"
      by (simp add: not_less)
    then show "format_value r (VFloat (Fin q')) = Inr (format_g 6 (Fin q'))"
      by (simp add: bindE_def)
  qed
  have ex0: "format_value r (VFloat NegZero) = Inr ''0''"
    by (simp add: bindE_def float_1e_10_def str_int_def nat_digits.simps digit_char_def)
  have ex1: "format_value r (VFloat (Fin 1234567)) = Inr ''1234567''"
    by (simp add: bindE_def float_1e_10_def str_int_def format_g_eval)
  have ex2: "format_value r (VFloat (Fin (3 + 1 / 2 ^ 51))) = Inr ''3''"
    by (simp add: bindE_def float_1e_10_def str_int_def format_g_eval)
  have ex3: "format_value r (VFloat (Fin (5 / 2))) = Inr ''2.5''"
    by (simp add: bindE_def float_1e_10_def str_int_def format_g_eval)
  have ex4: "format_value r (VFloat (Fin (884279719003555 / 2 ^ 48))) = Inr ''3.14159''"
    by (simp add: bindE_def float_1e_10_def str_int_def format_g_eval)
  show ?thesis using snap general ex0 ex1 ex2 ex3 ex4 by blast
qed

lemma half_away_from_integers: "float_1e_10 \<le> \<bar>5 / 2 - of_int M\<bar>"
proof -
  have "M \<le> 2 \<or> 3 \<le> M" by linarith
  then have "(1 / 2 :: rat) \<le> \<bar>5 / 2 - of_int M\<bar>"
  proof
    assume "M \<le> 2"
    then have "(of_int M :: rat) \<le> 2" by simp
    then show ?thesis by linarith
  next
    assume "3 \<le> M"
    then have "(3 :: rat) \<le> of_int M" by simp
    then show ?thesis by linarith
  qed
  then show ?thesis using float_1e_10_small by linarith
qed

theorem format_value_float_witness:
  "\<bar>(7 + 1 / 2 ^ 40 :: rat) - of_int 7\<bar> < float_1e_10
   \<and> format_value digits17 (VFloat (Fin (7 + 1 / 2 ^ 40))) = Inr ''7''
   \<and> (\<forall>M. float_1e_10 \<le> \<bar>5 / 2 - of_int M\<bar>)
   \<and> format_value digits17 (VFloat (Fin (5 / 2))) = Inr ''2.5''"
proof -
  have near: "\<bar>(7 + 1 / 2 ^ 40 :: rat) - of_int 7\<bar> < float_1e_10"
    by (simp add: float_1e_10_def)
  have far: "\<forall>M. float_1e_10 \<le> \<bar>5 / 2 - of_int M\<bar>"
    using half_away_from_integers by blast
  have seven: "str_int 7 = ''7''"
    by (simp add: str_int_def nat_digits.simps digit_char_def)
  have half: "format_g 6 (Fin (5 / 2)) = ''2.5''"
    by (simp add: format_g_eval)
  show ?thesis
    using format_value_float [of "7 + 1 / 2 ^ 40" 7 digits17 "5 / 2"] near far seven half
    by simp
qed

text \<open>
  Claim C5 as stated fails on two kinds of float.  An infinity or a NaN is not
  rendered at all: \<^verbatim>\<open>round\<close> raises before the general form (\<^verbatim>\<open>inf\<close>, \<^verbatim>\<open>nan\<close>) is
  reached.  And the test is the strict comparison \<^verbatim>\<open>< 1e-10\<close>: the double \<^verbatim>\<open>1e-10\<close> lies
  at distance \<^verbatim>\<open>1e-10\<close> from its nearest integer 0 and is rendered \<^verbatim>\<open>1e-10\<close>, not \<^verbatim>\<open>0\<close>.
\<close>

theorem format_value_float_counterexample:
  "format_value digits17 (VFloat PInf) = Inl OverflowError
   \<and> format_g 6 PInf = ''inf''
   \<and> format_value digits17 (VFloat NaN) = Inl ValueError
   \<and> round_half_even float_1e_10 = 0
   \<and> \<bar>float_1e_10 - of_int 0\<bar> \<le> float_1e_10
   \<and> format_value digits17 (VFloat (Fin float_1e_10)) = Inr ''1e-10''
   \<and> str_int 0 = ''0''"
  by (simp add: bindE_def float_1e_10_def str_int_def format_g_eval)

section \<open>The line assembler\<close>

lemma result_lines_append:
  "result_lines sa (xs @ ys) = result_lines sa xs @ result_lines sa ys"
  by (induction xs) auto

lemma enumerate_zip_Nil: "enumerate_zip [] ss = []"
  by (simp add: enumerate_zip_def)

lemma enumerate_zip_snoc:
  assumes "length ss = length ls"
  shows "enumerate_zip (ls @ [l]) (ss @ [s]) = enumerate_zip ls ss @ [(length ls, l, s)]"
  using assms by (simp add: enumerate_zip_def Let_def)

lemma rows_snoc:
  assumes "length ss = length ls"
  shows "result_lines sa (enumerate_zip (ls @ [l]) (ss @ [s]))
           = result_lines sa (enumerate_zip ls ss)
             @ (if ls = [] then [] else [row_break (sa ! (length ls - 1)) s]) @ [l]"
  using assms by (simp add: enumerate_zip_snoc result_lines_append row_break_def)

lemma rows_shape:
  "length ss = length ls \<Longrightarrow> (\<forall>j < length ls. ss ! j = sa ! j) \<Longrightarrow>
     length (result_lines sa (enumerate_zip ls ss)) = 2 * length ls - 1
     \<and> (\<forall>i < length ls. result_lines sa (enumerate_zip ls ss) ! (2 * i) = ls ! i)
     \<and> (\<forall>i. 0 < i \<and> i < length ls \<longrightarrow>
           result_lines sa (enumerate_zip ls ss) ! (2 * i - 1) = row_break (sa ! (i - 1)) (sa ! i))"
proof (induction ls arbitrary: ss rule: rev_induct)
  case Nil
  then show ?case by (simp add: enumerate_zip_Nil)
next
  case (snoc l ls)
  from snoc.prems(1) obtain ss0 s where ss: "ss = ss0 @ [s]" and len: "length ss0 = length ls"
    by (cases ss rule: rev_cases) auto
  have same: "\<forall>j < length ls. ss0 ! j = sa ! j"
  proof (intro allI impI)
    fix j assume j: "j < length ls"
    then have "j < length (ls @ [l])" by simp
    with snoc.prems(2) have "ss ! j = sa ! j" by blast
    with ss len j show "ss0 ! j = sa ! j" by (simp add: nth_append)
  qed
  have last: "s = sa ! length ls"
  proof -
    have "length ls < length (ls @ [l])" by simp
    with snoc.prems(2) have "ss ! length ls = sa ! length ls" by blast
    with ss len show ?thesis by (simp add: nth_append)
  qed
  let ?old = "result_lines sa (enumerate_zip ls ss0)"
  let ?new = "result_lines sa (enumerate_zip (ls @ [l]) ss)"
  have IH: "length ?old = 2 * length ls - 1"
      "\<forall>i < length ls. ?old ! (2 * i) = ls ! i"
      "\<forall>i. 0 < i \<and> i < length ls \<longrightarrow> ?old ! (2 * i - 1) = row_break (sa ! (i - 1)) (sa ! i)"
    using snoc.IH [OF len same] by auto
  show ?case
  proof (cases "ls = []")
    case True
    then show ?thesis
      using len ss by (simp add: enumerate_zip_def)
  next
    case False
    then have pos: "0 < length ls" by simp
    have new: "?new = ?old @ [row_break (sa ! (length ls - 1)) s, l]"
      using False len ss by (simp add: rows_snoc)
    have L: "length ?new = 2 * length (ls @ [l]) - 1"
      using new IH(1) pos by simp
    have A: "\<forall>i < length (ls @ [l]). ?new ! (2 * i) = (ls @ [l]) ! i"
    proof (intro allI impI)
      fix i assume "i < length (ls @ [l])"
      then consider "i < length ls" | "i = length ls" by fastforce
      then show "?new ! (2 * i) = (ls @ [l]) ! i"
      proof cases
        case 1
        then have "2 * i < length ?old" using IH(1) by simp
        then show ?thesis using 1 IH(2) new by (simp add: nth_append)
      next
        case 2
        then have "2 * i = length ?old + 1" using IH(1) pos by simp
        then show ?thesis using 2 new by (simp add: nth_append)
      qed
    qed
    have B: "\<forall>i. 0 < i \<and> i < length (ls @ [l]) \<longrightarrow>
               ?new ! (2 * i - 1) = row_break (sa ! (i - 1)) (sa ! i)"
    proof (intro allI impI)
      fix i assume i: "0 < i \<and> i < length (ls @ [l])"
      then consider "i < length ls" | "i = length ls" by fastforce
      then show "?new ! (2 * i - 1) = row_break (sa ! (i - 1)) (sa ! i)"
      proof cases
        case 1
        then have "2 * i - 1 < length ?old" using IH(1) i by simp
        then show ?thesis using 1 i IH(3) new by (simp add: nth_append)
      next
        case 2
        then have "2 * i - 1 = length ?old" using IH(1) pos by simp
        then show ?thesis using 2 new last by (simp add: nth_append)
      qed
    qed
    from L A B show ?thesis by blast
  qed
qed

lemma process_node_lengths:
  assumes "process_node r exec cfg node (ns, ls, ss) = Inr (ns', ls', ss')"
    and "length ss = length ls"
  shows "length ss' = length ls'"
  using assms
  by (cases "(r, exec, cfg, node, (ns, ls, ss))" rule: process_node.cases)
     (auto simp: bindE_def Let_def split: exec_result.splits option.splits if_splits sum.splits)

lemma process_body_lengths:
  "process_body r exec cfg body (ns, ls, ss) = Inr (ns', ls', ss') \<Longrightarrow> length ss = length ls
     \<Longrightarrow> length ss' = length ls'"
proof (induction body arbitrary: ns ls ss)
  case Nil
  then show ?case by simp
next
  case (Cons node body)
  from Cons.prems(1) obtain ns1 ls1 ss1
    where step: "process_node r exec cfg node (ns, ls, ss) = Inr (ns1, ls1, ss1)"
      and rest: "process_body r exec cfg body (ns1, ls1, ss1) = Inr (ns', ls', ss')"
    by (auto simp: bindE_def split: sum.splits)
  from process_node_lengths [OF step Cons.prems(2)] have "length ss1 = length ls1" .
  from Cons.IH [OF rest this] show ?case .
qed

text \<open>
  Claim C9.  For a non-empty list of lines with their flags, the output is the
  \<^verbatim>\<open>aligned\<close> environment around rows joined by line feeds, where the rows are the lines
  (row \<open>2 i\<close> is line \<open>i\<close>) with one break between consecutive lines (row \<open>2 i - 1\<close>): the
  wide break \<^verbatim>\<open>\\[10pt]\<close> exactly when line \<open>i - 1\<close> is flagged trivial and line \<open>i\<close> is not,
  the normal break \<^verbatim>\<open>\\\<close> otherwise.  With no lines the output is the empty string.
  Whenever the conversion returns, its text is that assembly of the lines and flags the
  loop collected, one flag per line.
\<close>

theorem aligned_block:
  "(length simple = length latex_lines \<longrightarrow> latex_lines \<noteq> [] \<longrightarrow>
      (\<exists>rows. assemble latex_lines simple
                 = tex ''begin{aligned}'' @ nl @ join nl rows @ nl @ tex ''end{aligned}''
         \<and> length rows = 2 * length latex_lines - 1
         \<and> (\<forall>i < length latex_lines. rows ! (2 * i) = latex_lines ! i)
         \<and> (\<forall>i. 0 < i \<and> i < length latex_lines \<longrightarrow>
               rows ! (2 * i - 1)
                 = (if simple ! (i - 1) \<and> \<not> simple ! i then tex (tex ''[10pt]'') else tex (tex [])))))
   \<and> assemble [] flags = []
   \<and> (python_to_latex r exec body cfg = Inr (latex, final) \<longrightarrow>
        (\<exists>ls ss. process_body r exec cfg body (initial_namespace, [], []) = Inr (final, ls, ss)
           \<and> length ss = length ls \<and> latex = assemble ls ss))"
proof -
  have block: "length simple = length latex_lines \<longrightarrow> latex_lines \<noteq> [] \<longrightarrow>
      (\<exists>rows. assemble latex_lines simple
                 = tex ''begin{aligned}'' @ nl @ join nl rows @ nl @ tex ''end{aligned}''
         \<and> length rows = 2 * length latex_lines - 1
         \<and> (\<forall>i < length latex_lines. rows ! (2 * i) = latex_lines ! i)
         \<and> (\<forall>i. 0 < i \<and> i < length latex_lines \<longrightarrow>
               rows ! (2 * i - 1)
                 = (if simple ! (i - 1) \<and> \<not> simple ! i then tex (tex ''[10pt]'') else tex (tex []))))"
  proof (intro impI)
    assume len: "length simple = length latex_lines" and ne: "latex_lines \<noteq> []"
    let ?rows = "result_lines simple (enumerate_zip latex_lines simple)"
    have "assemble latex_lines simple
            = tex ''begin{aligned}'' @ nl @ join nl ?rows @ nl @ tex ''end{aligned}''"
      using ne by (simp add: assemble_def)
    moreover have "length ?rows = 2 * length latex_lines - 1
         \<and> (\<forall>i < length latex_lines. ?rows ! (2 * i) = latex_lines ! i)
         \<and> (\<forall>i. 0 < i \<and> i < length latex_lines \<longrightarrow>
               ?rows ! (2 * i - 1) = row_break (simple ! (i - 1)) (simple ! i))"
      using rows_shape [of simple latex_lines simple] len by simp
    ultimately show "\<exists>rows. assemble latex_lines simple
                 = tex ''begin{aligned}'' @ nl @ join nl rows @ nl @ tex ''end{aligned}''
         \<and> length rows = 2 * length latex_lines - 1
         \<and> (\<forall>i < length latex_lines. rows ! (2 * i) = latex_lines ! i)
         \<and> (\<forall>i. 0 < i \<and> i < length latex_lines \<longrightarrow>
               rows ! (2 * i - 1)
                 = (if simple ! (i - 1) \<and> \<not> simple ! i then tex (tex ''[10pt]'') else tex (tex [])))"
      unfolding row_break_def by (intro exI [of _ ?rows]) simp
  qed
  have empty: "assemble [] flags = []"
    by (simp add: assemble_def)
  have run: "python_to_latex r exec body cfg = Inr (latex, final) \<longrightarrow>
        (\<exists>ls ss. process_body r exec cfg body (initial_namespace, [], []) = Inr (final, ls, ss)
           \<and> length ss = length ls \<and> latex = assemble ls ss)"
  proof
    assume "python_to_latex r exec body cfg = Inr (latex, final)"
    then obtain ls ss
      where body: "process_body r exec cfg body (initial_namespace, [], []) = Inr (final, ls, ss)"
        and out: "latex = assemble ls ss"
      by (auto simp: python_to_latex_def bindE_def split: sum.splits prod.splits)
    from process_body_lengths [OF body] have "length ss = length ls" by simp
    with body out show "\<exists>ls ss. process_body r exec cfg body (initial_namespace, [], []) = Inr (final, ls, ss)
           \<and> length ss = length ls \<and> latex = assemble ls ss"
      by blast
  qed
  from block empty run show ?thesis by blast
qed

lemmas run_eval = python_to_latex_def bindE_def show_all_def initial_namespace_def builtin_def
  assemble_def enumerate_zip_def calculation_parts_def name_eval str_int_def
  is_additive_BinOp_def left_right_def dict_get_def nat_digits.simps digit_char_def Let_def

lemma sum_program_runs:
  "python_to_latex digits17 fragment_exec sum_program show_all
     = Inr (tex ''begin{aligned}'' @ nl @ ''x &= 5'' @ nl @ tex (tex []) @ nl @ ''y &= 10'' @ nl
              @ tex (tex ''[10pt]'') @ nl @ ''z &= x + y = 5 + 10 = 15'' @ nl @ tex ''end{aligned}'',
            initial_namespace(''x'' \<mapsto> VInt 5, ''y'' \<mapsto> VInt 10, ''z'' \<mapsto> VInt 15))"
  by (simp add: sum_program_def run_eval)

theorem aligned_block_witness:
  "length [True, True, False] = length [''x &= 5'', ''y &= 10'', ''z &= x + y = 5 + 10 = 15'']
   \<and> [''x &= 5'', ''y &= 10'', ''z &= x + y = 5 + 10 = 15''] \<noteq> []
   \<and> (\<exists>rows. assemble [''x &= 5'', ''y &= 10'', ''z &= x + y = 5 + 10 = 15''] [True, True, False]
                 = tex ''begin{aligned}'' @ nl @ join nl rows @ nl @ tex ''end{aligned}''
         \<and> length rows = 5
         \<and> rows ! 1 = tex (tex []) \<and> rows ! 3 = tex (tex ''[10pt]''))
   \<and> python_to_latex digits17 fragment_exec sum_program show_all
        = Inr (tex ''begin{aligned}'' @ nl @ ''x &= 5'' @ nl @ tex (tex []) @ nl @ ''y &= 10'' @ nl
              @ tex (tex ''[10pt]'') @ nl @ ''z &= x + y = 5 + 10 = 15'' @ nl @ tex ''end{aligned}'',
            initial_namespace(''x'' \<mapsto> VInt 5, ''y'' \<mapsto> VInt 10, ''z'' \<mapsto> VInt 15))
   \<and> (\<exists>ls ss. process_body digits17 fragment_exec show_all sum_program (initial_namespace, [], [])
                  = Inr (initial_namespace(''x'' \<mapsto> VInt 5, ''y'' \<mapsto> VInt 10, ''z'' \<mapsto> VInt 15), ls, ss)
         \<and> length ss = length ls)"
proof -
  let ?lines = "[''x &= 5'', ''y &= 10'', ''z &= x + y = 5 + 10 = 15'']"
  let ?flags = "[True, True, False]"
  let ?final = "initial_namespace(''x'' \<mapsto> VInt 5, ''y'' \<mapsto> VInt 10, ''z'' \<mapsto> VInt 15)"
  let ?block = "tex ''begin{aligned}'' @ nl @ ''x &= 5'' @ nl @ tex (tex []) @ nl @ ''y &= 10'' @ nl
              @ tex (tex ''[10pt]'') @ nl @ ''z &= x + y = 5 + 10 = 15'' @ nl @ tex ''end{aligned}''"
  have len: "length ?flags = length ?lines" by simp
  have ne: "?lines \<noteq> []" by simp
  have run: "python_to_latex digits17 fragment_exec sum_program show_all = Inr (?block, ?final)"
    using sum_program_runs by simp
  from aligned_block [of ?flags ?lines "[]" digits17 fragment_exec sum_program show_all ?block ?final]
  have shape: "\<exists>rows. assemble ?lines ?flags
                 = tex ''begin{aligned}'' @ nl @ join nl rows @ nl @ tex ''end{aligned}''
         \<and> length rows = 2 * length ?lines - 1
         \<and> (\<forall>i < length ?lines. rows ! (2 * i) = ?lines ! i)
         \<and> (\<forall>i. 0 < i \<and> i < length ?lines \<longrightarrow>
               rows ! (2 * i - 1)
                 = (if ?flags ! (i - 1) \<and> \<not> ?flags ! i then tex (tex ''[10pt]'') else tex (tex [])))"
    and body: "\<exists>ls ss. process_body digits17 fragment_exec show_all sum_program (initial_namespace, [], [])
                  = Inr (?final, ls, ss) \<and> length ss = length ls \<and> ?block = assemble ls ss"
    using len ne run by blast+
  from shape obtain rows where rows: "assemble ?lines ?flags
                 = tex ''begin{aligned}'' @ nl @ join nl rows @ nl @ tex ''end{aligned}''"
      "length rows = 2 * length ?lines - 1"
      "\<forall>i. 0 < i \<and> i < length ?lines \<longrightarrow>
               rows ! (2 * i - 1)
                 = (if ?flags ! (i - 1) \<and> \<not> ?flags ! i then tex (tex ''[10pt]'') else tex (tex []))"
    by blast
  from rows(3) [rule_format, of 1] have r1: "rows ! 1 = tex (tex [])" by simp
  from rows(3) [rule_format, of 2] have r3: "rows ! 3 = tex (tex ''[10pt]'')" by simp
  have "\<exists>rows. assemble ?lines ?flags
                 = tex ''begin{aligned}'' @ nl @ join nl rows @ nl @ tex ''end{aligned}''
         \<and> length rows = 5 \<and> rows ! 1 = tex (tex []) \<and> rows ! 3 = tex (tex ''[10pt]'')"
    using rows(1,2) r1 r3 by (intro exI [of _ rows]) simp
  moreover from body have "\<exists>ls ss. process_body digits17 fragment_exec show_all sum_program (initial_namespace, [], [])
                  = Inr (?final, ls, ss) \<and> length ss = length ls"
    by blast
  ultimately show ?thesis using len ne run by blast
qed

section \<open>The statement sequencer\<close>

lemma process_body_append:
  "process_body r exec cfg (xs @ ys) st
     = bindE (process_body r exec cfg xs st) (process_body r exec cfg ys)"
  by (induction xs arbitrary: st) (auto simp: bindE_def split: sum.splits)

lemma skip_program_runs:
  "python_to_latex digits17 fragment_exec skip_program show_all
     = Inr (tex ''begin{aligned}'' @ nl @ ''a &= 2'' @ nl @ tex (tex ''[10pt]'') @ nl
              @ ''c &= a '' @ tex ''cdot 3 = 2 '' @ tex ''cdot 3 = 6'' @ nl @ tex ''end{aligned}'',
            initial_namespace(''a'' \<mapsto> VInt 2, ''c'' \<mapsto> VInt 6))"
  by (simp add: skip_program_def run_eval)

section \<open>The parts of a calculation line\<close>

text \<open>
  Claim C8.  The parts of a line whose right-hand side is not a literal are, in this
  order: the symbolic form when it is enabled; the substituted form when it is
  enabled and either the symbolic form is disabled or the two texts differ; the value
  when it is enabled.  (A form is rendered only when it is enabled.)  The line is the
  identifier, \<^verbatim>\<open> &= \<close>, and the parts joined with \<^verbatim>\<open> = \<close>, and it is flagged non-trivial.
\<close>

theorem calculation_line:
  "((show_symbolic cfg \<longrightarrow> expr_to_latex r e ns = Inr symbolic) \<longrightarrow>
    (show_substitution cfg \<longrightarrow> substitute_values r e ns = Inr substituted) \<longrightarrow>
      calculation_parts r cfg e ns value_str
        = Inr ((if show_symbolic cfg then [symbolic] else [])
             @ (if show_substitution cfg \<and> (\<not> show_symbolic cfg \<or> substituted \<noteq> symbolic)
                then [substituted] else [])
             @ (if show_result cfg then [value_str] else [])))
   \<and> (exec (Assign [Name var] e) ns0 = Completed ns \<longrightarrow> ns var = Some v \<longrightarrow>
        format_value r v = Inr value_str \<longrightarrow> \<not> is_Constant e \<longrightarrow>
        calculation_parts r cfg e ns value_str = Inr parts \<longrightarrow>
          process_node r exec cfg (Assign [Name var] e) (ns0, ls, ss)
            = Inr (ns, ls @ [name_to_latex var @ '' &= '' @ join '' = '' parts], ss @ [False]))"
  by (simp add: calculation_parts_def bindE_def)

theorem calculation_line_witness:
  "expr_to_latex digits17 (BinOp (Name ''x'') Add (Name ''y''))
       (initial_namespace(''x'' \<mapsto> VInt 5, ''y'' \<mapsto> VInt 10, ''z'' \<mapsto> VInt 15)) = Inr ''x + y''
   \<and> substitute_values digits17 (BinOp (Name ''x'') Add (Name ''y''))
       (initial_namespace(''x'' \<mapsto> VInt 5, ''y'' \<mapsto> VInt 10, ''z'' \<mapsto> VInt 15)) = Inr ''5 + 10''
   \<and> calculation_parts digits17 show_all (BinOp (Name ''x'') Add (Name ''y''))
       (initial_namespace(''x'' \<mapsto> VInt 5, ''y'' \<mapsto> VInt 10, ''z'' \<mapsto> VInt 15)) ''15''
       = Inr [''x + y'', ''5 + 10'', ''15'']
   \<and> fragment_exec (Assign [Name ''z''] (BinOp (Name ''x'') Add (Name ''y'')))
         (initial_namespace(''x'' \<mapsto> VInt 5, ''y'' \<mapsto> VInt 10))
       = Completed (initial_namespace(''x'' \<mapsto> VInt 5, ''y'' \<mapsto> VInt 10, ''z'' \<mapsto> VInt 15))
   \<and> format_value digits17 (VInt 15) = Inr ''15''
   \<and> \<not> is_Constant (BinOp (Name ''x'') Add (Name ''y''))
   \<and> process_node digits17 fragment_exec show_all (Assign [Name ''z''] (BinOp (Name ''x'') Add (Name ''y'')))
         (initial_namespace(''x'' \<mapsto> VInt 5, ''y'' \<mapsto> VInt 10), [''x &= 5'', ''y &= 10''], [True, True])
       = Inr (initial_namespace(''x'' \<mapsto> VInt 5, ''y'' \<mapsto> VInt 10, ''z'' \<mapsto> VInt 15),
              [''x &= 5'', ''y &= 10'', ''z &= x + y = 5 + 10 = 15''], [True, True, False])
   \<and> calculation_parts digits17 show_all (BinOp (Constant (VInt 2)) Add (Constant (VInt 3))) Map.empty ''5''
       = Inr [''2 + 3'', ''5'']
   \<and> calculation_parts digits17 \<lparr>show_symbolic = False, show_substitution = True, show_result = True\<rparr>
         (BinOp (Constant (VInt 2)) Add (Constant (VInt 3))) Map.empty ''5''
       = Inr [''2 + 3'', ''5'']"
proof -
  let ?e = "BinOp (Name ''x'') Add (Name ''y'')"
  let ?start = "initial_namespace(''x'' \<mapsto> VInt 5, ''y'' \<mapsto> VInt 10)"
  let ?ns = "initial_namespace(''x'' \<mapsto> VInt 5, ''y'' \<mapsto> VInt 10, ''z'' \<mapsto> VInt 15)"
  have sym: "expr_to_latex digits17 ?e ?ns = Inr ''x + y''"
    by (simp add: run_eval)
  have sub: "substitute_values digits17 ?e ?ns = Inr ''5 + 10''"
    by (simp add: run_eval)
  have ex: "fragment_exec (Assign [Name ''z''] ?e) ?start = Completed ?ns"
    by (simp add: bindE_def)
  have bound: "?ns ''z'' = Some (VInt 15)" by simp
  have val: "format_value digits17 (VInt 15) = Inr ''15''"
    by (simp add: run_eval)
  have nc: "\<not> is_Constant ?e" by simp
  from calculation_line [of show_all digits17 ?e ?ns "''x + y''" "''5 + 10''" "''15''"
      fragment_exec "''z''" ?start "VInt 15" "[''x + y'', ''5 + 10'', ''15'']"
      "[''x &= 5'', ''y &= 10'']" "[True, True]"]
  have parts: "calculation_parts digits17 show_all ?e ?ns ''15'' = Inr [''x + y'', ''5 + 10'', ''15'']"
    and line: "calculation_parts digits17 show_all ?e ?ns ''15'' = Inr [''x + y'', ''5 + 10'', ''15''] \<longrightarrow>
      process_node digits17 fragment_exec show_all (Assign [Name ''z''] ?e)
         (?start, [''x &= 5'', ''y &= 10''], [True, True])
       = Inr (?ns, [''x &= 5'', ''y &= 10'', ''z &= x + y = 5 + 10 = 15''], [True, True, False])"
    using sym sub ex bound val nc by (simp_all add: show_all_def name_eval)
  have same: "calculation_parts digits17 show_all (BinOp (Constant (VInt 2)) Add (Constant (VInt 3))) Map.empty ''5''
       = Inr [''2 + 3'', ''5'']"
    by (simp add: run_eval)
  have alone: "calculation_parts digits17 \<lparr>show_symbolic = False, show_substitution = True, show_result = True\<rparr>
         (BinOp (Constant (VInt 2)) Add (Constant (VInt 3))) Map.empty ''5''
       = Inr [''2 + 3'', ''5'']"
    by (simp add: run_eval)
  show ?thesis
    using sym sub parts ex val nc line same alone by blast
qed

section \<open>Inputs on which the conversion raises\<close>

text \<open>
  Claim C1 says that the conversion never raises on a statement list.  It does: for
  \<^verbatim>\<open>x = 1e999\<close> the evaluation succeeds and \<open>format_value\<close> raises \<^verbatim>\<open>OverflowError\<close>
  (\<^verbatim>\<open>round\<close> of an infinity), although the symbolic renderer has a rendering for that very
  literal; a NaN raises \<^verbatim>\<open>ValueError\<close>.  And the symbolic renderer raises
  \<^verbatim>\<open>IndexError\<close> on a call of a templated function that passes its arguments by keyword,
  such as \<^verbatim>\<open>round(number=2.5)\<close> or \<^verbatim>\<open>pow(base=2, exp=3)\<close>, which evaluate without error.
\<close>

theorem conversion_raises:
  "python_to_latex digits17 fragment_exec overflow_program show_all = Inl OverflowError
   \<and> format_value r (VFloat PInf) = Inl OverflowError
   \<and> format_value r (VFloat NInf) = Inl OverflowError
   \<and> format_value r (VFloat NaN) = Inl ValueError
   \<and> expr_to_latex r (Constant (VFloat PInf)) ns = Inr (tex ''infty'')
   \<and> expr_to_latex r (Call (Name ''round'') [] [(''number'', Constant (VFloat (Fin (5 / 2))))]) ns
       = Inl IndexError
   \<and> expr_to_latex r (Call (Name ''pow'') [] [(''base'', Constant (VInt 2)), (''exp'', Constant (VInt 3))]) ns
       = Inl IndexError"
  by (simp add: overflow_program_def python_to_latex_def bindE_def call_latex_def arg_def)

section \<open>Failing statements\<close>

text \<open>
  Claim C7 says that an assignment whose evaluation raises any error is dropped and
  no error reaches the caller.  A plain assignment runs under \<^verbatim>\<open>except Exception\<close>:
  for \<^verbatim>\<open>a = 2; x = exit(); c = a * 3\<close> the \<^verbatim>\<open>SystemExit\<close> raised by the second
  statement leaves the conversion, and the third statement is never processed.  The
  augmented path, under a bare \<^verbatim>\<open>except:\<close>, drops \<^verbatim>\<open>a += exit()\<close> and goes on.
\<close>

theorem assignment_surfaces_SystemExit:
  "exiting_exec (Assign [Name ''x''] (Call (Name ''exit'') [] [])) (initial_namespace(''a'' \<mapsto> VInt 2))
     = Raised SystemExit (initial_namespace(''a'' \<mapsto> VInt 2))
   \<and> python_to_latex digits17 exiting_exec exit_program show_all = Inl SystemExit
   \<and> exiting_exec (AugAssign (Name ''a'') Add (Call (Name ''exit'') [] [])) (initial_namespace(''a'' \<mapsto> VInt 2))
       = Raised SystemExit (initial_namespace(''a'' \<mapsto> VInt 2))
   \<and> python_to_latex digits17 exiting_exec aug_exit_program show_all
       = Inr (tex ''begin{aligned}'' @ nl @ ''a &= 2'' @ nl @ tex (tex ''[10pt]'') @ nl
              @ ''c &= a '' @ tex ''cdot 3 = 2 '' @ tex ''cdot 3 = 6'' @ nl @ tex ''end{aligned}'',
            initial_namespace(''a'' \<mapsto> VInt 2, ''c'' \<mapsto> VInt 6))"
  by (simp add: exit_program_def aug_exit_program_def run_eval)

text \<open>
  Claim C7, as amended.  Let the statements before an assignment to a name have been
  processed without an exception leaving the conversion.  If the evaluator raises an
  exception derived from \<^verbatim>\<open>Exception\<close> on a plain assignment, or any exception at all
  on an augmented assignment, the iteration adds no line and no flag and returns
  normally, and the conversion goes on with the rest of the statements exactly as it
  would from that state: what it does with them, lines included, is what it does with
  them alone.  If the evaluator raises an exception that is not derived from
  \<^verbatim>\<open>Exception\<close> on a plain assignment, that exception leaves the conversion.
\<close>

theorem failed_statement_skipped:
  "(process_body r exec cfg before st0 = Inr (ns, ls, ss) \<longrightarrow>
      exec (Assign [Name var] e) ns = Raised exc ns' \<longrightarrow> is_Exception exc \<longrightarrow>
        process_node r exec cfg (Assign [Name var] e) (ns, ls, ss) = Inr (ns', ls, ss)
        \<and> process_body r exec cfg (before @ Assign [Name var] e # rest) st0
            = process_body r exec cfg rest (ns', ls, ss))
   \<and> (process_body r exec cfg before1 st1 = Inr (ns1, ls1, ss1) \<longrightarrow>
        exec (AugAssign (Name var1) op e1) ns1 = Raised exc1 ns1' \<longrightarrow>
          process_node r exec cfg (AugAssign (Name var1) op e1) (ns1, ls1, ss1) = Inr (ns1', ls1, ss1)
          \<and> process_body r exec cfg (before1 @ AugAssign (Name var1) op e1 # rest1) st1
              = process_body r exec cfg rest1 (ns1', ls1, ss1))
   \<and> (process_body r exec cfg before2 (initial_namespace, [], []) = Inr (ns2, ls2, ss2) \<longrightarrow>
        exec (Assign [Name var2] e2) ns2 = Raised exc2 ns2' \<longrightarrow> \<not> is_Exception exc2 \<longrightarrow>
          process_node r exec cfg (Assign [Name var2] e2) (ns2, ls2, ss2) = Inl exc2
          \<and> python_to_latex r exec (before2 @ Assign [Name var2] e2 # rest2) cfg = Inl exc2)"
  by (simp add: process_body_append python_to_latex_def bindE_def)

theorem failed_statement_skipped_witness:
  "process_body digits17 exiting_exec show_all [Assign [Name ''a''] (Constant (VInt 2))]
       (initial_namespace, [], [])
     = Inr (initial_namespace(''a'' \<mapsto> VInt 2), [''a &= 2''], [True])
   \<and> exiting_exec (Assign [Name ''b''] (BinOp (Name ''undefined_name'') Add (Constant (VInt 1))))
         (initial_namespace(''a'' \<mapsto> VInt 2))
       = Raised NameError (initial_namespace(''a'' \<mapsto> VInt 2))
   \<and> is_Exception NameError
   \<and> process_body digits17 exiting_exec show_all skip_program (initial_namespace, [], [])
       = process_body digits17 exiting_exec show_all
           [Assign [Name ''c''] (BinOp (Name ''a'') Mult (Constant (VInt 3)))]
           (initial_namespace(''a'' \<mapsto> VInt 2), [''a &= 2''], [True])
   \<and> python_to_latex digits17 fragment_exec skip_program show_all
       = Inr (tex ''begin{aligned}'' @ nl @ ''a &= 2'' @ nl @ tex (tex ''[10pt]'') @ nl
              @ ''c &= a '' @ tex ''cdot 3 = 2 '' @ tex ''cdot 3 = 6'' @ nl @ tex ''end{aligned}'',
            initial_namespace(''a'' \<mapsto> VInt 2, ''c'' \<mapsto> VInt 6))
   \<and> exiting_exec (AugAssign (Name ''a'') Add (Call (Name ''exit'') [] [])) (initial_namespace(''a'' \<mapsto> VInt 2))
       = Raised SystemExit (initial_namespace(''a'' \<mapsto> VInt 2))
   \<and> process_body digits17 exiting_exec show_all aug_exit_program (initial_namespace, [], [])
       = process_body digits17 exiting_exec show_all
           [Assign [Name ''c''] (BinOp (Name ''a'') Mult (Constant (VInt 3)))]
           (initial_namespace(''a'' \<mapsto> VInt 2), [''a &= 2''], [True])
   \<and> exiting_exec (Assign [Name ''x''] (Call (Name ''exit'') [] [])) (initial_namespace(''a'' \<mapsto> VInt 2))
       = Raised SystemExit (initial_namespace(''a'' \<mapsto> VInt 2))
   \<and> \<not> is_Exception SystemExit
   \<and> python_to_latex digits17 exiting_exec exit_program show_all = Inl SystemExit"
proof -
  let ?r = digits17 and ?two = "initial_namespace(''a'' \<mapsto> VInt 2)"
  let ?a = "Assign [Name ''a''] (Constant (VInt 2))"
  let ?b = "BinOp (Name ''undefined_name'') Add (Constant (VInt 1))"
  let ?c = "Assign [Name ''c''] (BinOp (Name ''a'') Mult (Constant (VInt 3)))"
  let ?exit = "Call (Name ''exit'') [] []"
  have before: "process_body ?r exiting_exec show_all [?a] (initial_namespace, [], [])
       = Inr (?two, [''a &= 2''], [True])"
    by (simp add: run_eval)
  have raised: "exiting_exec (Assign [Name ''b''] ?b) ?two = Raised NameError ?two"
    by (simp add: bindE_def initial_namespace_def builtin_def)
  have exc: "is_Exception NameError" by simp
  have raised1: "exiting_exec (AugAssign (Name ''a'') Add ?exit) ?two = Raised SystemExit ?two"
    by (simp add: initial_namespace_def builtin_def)
  have raised2: "exiting_exec (Assign [Name ''x''] ?exit) ?two = Raised SystemExit ?two"
    by (simp add: initial_namespace_def builtin_def)
  have exc2: "\<not> is_Exception SystemExit" by simp
  have prog: "skip_program = [?a] @ Assign [Name ''b''] ?b # [?c]"
    by (simp add: skip_program_def)
  have prog1: "aug_exit_program = [?a] @ AugAssign (Name ''a'') Add ?exit # [?c]"
    by (simp add: aug_exit_program_def)
  have prog2: "exit_program = [?a] @ Assign [Name ''x''] ?exit # [?c]"
    by (simp add: exit_program_def)
  from failed_statement_skipped [of ?r exiting_exec show_all
      "[?a]" "(initial_namespace, [], [])" ?two "[''a &= 2'']" "[True]"
      "''b''" ?b NameError ?two "[?c]"
      "[?a]" "(initial_namespace, [], [])" ?two "[''a &= 2'']" "[True]" "''a''" Add ?exit SystemExit ?two "[?c]"
      "[?a]" ?two "[''a &= 2'']" "[True]" "''x''" ?exit SystemExit ?two "[?c]"]
  have "process_body ?r exiting_exec show_all ([?a] @ Assign [Name ''b''] ?b # [?c]) (initial_namespace, [], [])
       = process_body ?r exiting_exec show_all [?c] (?two, [''a &= 2''], [True])"
    and "process_body ?r exiting_exec show_all ([?a] @ AugAssign (Name ''a'') Add ?exit # [?c]) (initial_namespace, [], [])
       = process_body ?r exiting_exec show_all [?c] (?two, [''a &= 2''], [True])"
    and "python_to_latex ?r exiting_exec ([?a] @ Assign [Name ''x''] ?exit # [?c]) show_all = Inl SystemExit"
    using before raised exc raised1 raised2 exc2 by blast+
  then have skipped: "process_body ?r exiting_exec show_all skip_program (initial_namespace, [], [])
       = process_body ?r exiting_exec show_all [?c] (?two, [''a &= 2''], [True])"
    and skipped1: "process_body ?r exiting_exec show_all aug_exit_program (initial_namespace, [], [])
       = process_body ?r exiting_exec show_all [?c] (?two, [''a &= 2''], [True])"
    and surfaced: "python_to_latex ?r exiting_exec exit_program show_all = Inl SystemExit"
    by (simp_all only: prog prog1 prog2)
  show ?thesis
    using before raised exc skipped skip_program_runs raised1 skipped1 raised2 exc2 surfaced by blast
qed

end
